theory Spec2Isabelle
  imports Complex_Main "HOL-Library.AList"
begin

section \<open>The WebGL image viewer engine: data model\<close>

text \<open>
  This theory embeds \<^verbatim>\<open>packages/webgl-viewer/src/WebGLImageViewerEngine.ts\<close>.
  The class \<^verbatim>\<open>WebGLImageViewerEngine\<close> becomes the record \<open>engine\<close>; every method becomes a
  function that takes the engine and returns the updated one.

  Conventions of the embedding:
  \<^item> A JavaScript \<^verbatim>\<open>number\<close> is a \<^typ>\<open>real\<close>: arithmetic is exact, there is no rounding, and
    the values \<^verbatim>\<open>NaN\<close> and \<^verbatim>\<open>Infinity\<close> do not exist. Where the source divides, the statements
    below that depend on the quotient assume a non-zero divisor; where the source can produce
    \<^verbatim>\<open>NaN\<close> (the progress of an animation of duration zero) the model returns \<open>None\<close>.
  \<^item> LOD indices and \<^verbatim>\<open>currentLOD\<close> are \<^typ>\<open>int\<close> (the source computes \<^verbatim>\<open>currentLOD - 1\<close>).
  \<^item> A \<^verbatim>\<open>WebGLTexture\<close> is a handle of type \<^typ>\<open>nat\<close>. The GL context is the set \<open>glLive\<close>
    of handles that were created and not yet deleted, and the counter \<open>glNext\<close> of the next
    fresh handle.
  \<^item> \<^verbatim>\<open>lodTextures\<close>, a \<^verbatim>\<open>Map<number, TextureInfo>\<close>, is an association list in insertion order;
    \<^verbatim>\<open>Map.set\<close> is \<^const>\<open>AList.update\<close>.
  \<^item> The table \<^verbatim>\<open>LOD_LEVELS\<close> is imported from \<^verbatim>\<open>./constants\<close>; it is a parameter \<open>lods\<close> of
    every function that reads it.
  \<^item> The clock (\<^verbatim>\<open>performance.now()\<close>, \<^verbatim>\<open>Date.now()\<close>), the bounding rectangle of the canvas, the
    image decoder and the outcome of GL calls are inputs of the functions that read them.
  \<^item> The callbacks registered with \<^verbatim>\<open>requestAnimationFrame\<close> (the render loop's and those of
    \<^verbatim>\<open>swapBuffers\<close>) are the queue \<open>rafQueue\<close>, in registration order; texture productions that
    were started and not yet completed are the list \<open>tasks\<close>.
  \<^item> The nested options of the configuration are flattened (\<^verbatim>\<open>wheel.step\<close> is \<open>wheel_step\<close>);
    \<^verbatim>\<open>this.config\<close> is the field \<open>cfg\<close>; of \<^verbatim>\<open>memoryInfo\<close> the fields \<^verbatim>\<open>pressure\<close> and
    \<^verbatim>\<open>textureMemory\<close> are kept, as \<open>memoryPressure\<close> and \<open>textureMemory\<close>.
  \<^item> Logging, the frame statistics, the shader program and the host callbacks
    (\<^verbatim>\<open>onZoomChange\<close>, \<^verbatim>\<open>onDebugUpdate\<close>) do not influence the fields above and are left out.
\<close>

datatype pressure = Low | Medium | High | Critical

datatype doubleClickMode = Toggle | Zoom

record lod_level =
  scale :: real
  maxViewportScale :: real

record TextureInfo =
  texture :: nat
  width :: real
  height :: real
  memory :: real
  lastUsed :: real

record config =
  initialScale :: real
  minScale :: real
  maxScale :: real
  wheel_step :: real
  wheel_wheelDisabled :: bool
  panning_disabled :: bool
  pinch_disabled :: bool
  doubleClick_disabled :: bool
  doubleClick_mode :: doubleClickMode
  doubleClick_step :: real
  doubleClick_animationTime :: real
  smooth :: bool
  centerOnInit :: bool
  limitToBounds :: bool

datatype task = UpdateLODTask int | PreloadTask int

datatype raf = Render | Swap int

record engine =
  frontTexture :: "nat option"
  backTexture :: "nat option"
  isBackBufferReady :: bool
  originalImageSrc :: string
  imageWidth :: real
  imageHeight :: real
  canvasWidth :: real
  canvasHeight :: real
  imageLoaded :: bool
  scale :: real
  translateX :: real
  translateY :: real
  targetScale :: real
  targetTranslateX :: real
  targetTranslateY :: real
  isDragging :: bool
  lastMouseX :: real
  lastMouseY :: real
  lastTouchDistance :: real
  isOriginalSize :: bool
  lastDoubleClickTime :: real
  lastTouchTime :: real
  lastTouchX :: real
  lastTouchY :: real
  isAnimating :: bool
  animationStartTime :: real
  animationDuration :: real
  startScale :: real
  startTranslateX :: real
  startTranslateY :: real
  currentLOD :: int
  lodTextures :: "(int \<times> TextureInfo) list"
  maxTextureSize :: real
  textureMemoryLimit :: real
  textureMemory :: real
  memoryPressure :: pressure
  offscreenGL :: bool
  cfg :: config
  glLive :: "nat set"
  glNext :: nat
  rafQueue :: "raf list"
  tasks :: "task list"

section \<open>Transform state and animation\<close>

text \<open>\<^verbatim>\<open>Math.round\<close>: the nearest integer, halves rounded up.\<close>

definition mathRound :: "real \<Rightarrow> real" where
  "mathRound x = of_int \<lfloor>x + 1 / 2\<rfloor>"

definition getFitToScreenScale :: "engine \<Rightarrow> real" where
  "getFitToScreenScale st =
     (let scaleX = canvasWidth st / imageWidth st;
          scaleY = canvasHeight st / imageHeight st
      in min scaleX scaleY)"

text \<open>
  The two bounds that \<^verbatim>\<open>constrainScaleAndPosition\<close>, \<^verbatim>\<open>zoomAt\<close> and \<^verbatim>\<open>performDoubleClickAction\<close>
  each compute inline as \<^verbatim>\<open>absoluteMinScale\<close> and \<^verbatim>\<open>effectiveMaxScale\<close>.
\<close>

definition absoluteMinScale :: "engine \<Rightarrow> real" where
  "absoluteMinScale st = getFitToScreenScale st * minScale (cfg st)"

definition effectiveMaxScale :: "engine \<Rightarrow> real" where
  "effectiveMaxScale st =
     (let originalSizeScale = 1;
          userMaxScale = getFitToScreenScale st * maxScale (cfg st)
      in max userMaxScale originalSizeScale)"

definition fitImageToScreen :: "engine \<Rightarrow> engine" where
  "fitImageToScreen st =
     st\<lparr>scale := getFitToScreenScale st * initialScale (cfg st),
        translateX := 0, translateY := 0, isOriginalSize := False\<rparr>"

definition constrainImagePosition :: "engine \<Rightarrow> engine" where
  "constrainImagePosition st =
     (if \<not> limitToBounds (cfg st) then st
      else if scale st \<le> getFitToScreenScale st then st\<lparr>translateX := 0, translateY := 0\<rparr>
      else
        let scaledWidth = imageWidth st * scale st;
            scaledHeight = imageHeight st * scale st;
            maxTranslateX = max 0 ((scaledWidth - canvasWidth st) / 2);
            maxTranslateY = max 0 ((scaledHeight - canvasHeight st) / 2)
        in st\<lparr>translateX := max (- maxTranslateX) (min maxTranslateX (translateX st)),
              translateY := max (- maxTranslateY) (min maxTranslateY (translateY st))\<rparr>)"

definition constrainScaleAndPosition :: "engine \<Rightarrow> engine" where
  "constrainScaleAndPosition st =
     constrainImagePosition
       (if scale st < absoluteMinScale st then st\<lparr>scale := absoluteMinScale st\<rparr>
        else if scale st > effectiveMaxScale st then st\<lparr>scale := effectiveMaxScale st\<rparr>
        else st)"

text \<open>
  \<^verbatim>\<open>startAnimation(targetScale, targetTranslateX, targetTranslateY, animationTime?)\<close>. The optional
  argument is an option; \<^verbatim>\<open>animationTime || (smooth ? 300 : 0)\<close> takes the default when the
  argument is absent or falsy, and the only falsy real number is zero. \<open>now\<close> is
  \<^verbatim>\<open>performance.now()\<close>.
\<close>

definition truthy :: "real option \<Rightarrow> bool" where
  "truthy a = (case a of None \<Rightarrow> False | Some t \<Rightarrow> t \<noteq> 0)"

definition startAnimation :: "real \<Rightarrow> real \<Rightarrow> real \<Rightarrow> real option \<Rightarrow> real \<Rightarrow> engine \<Rightarrow> engine" where
  "startAnimation tScale tTranslateX tTranslateY animationTime now st =
     (let st1 = st\<lparr>isAnimating := True,
                    animationStartTime := now,
                    animationDuration :=
                      (if truthy animationTime then the animationTime
                       else if smooth (cfg st) then 300 else 0),
                    startScale := scale st,
                    targetScale := tScale,
                    startTranslateX := translateX st,
                    startTranslateY := translateY st\<rparr>;
          tempScale = scale st1;
          tempTranslateX = translateX st1;
          tempTranslateY = translateY st1;
          st2 = constrainImagePosition
                  (st1\<lparr>scale := tScale, translateX := tTranslateX, translateY := tTranslateY\<rparr>);
          st3 = st2\<lparr>targetTranslateX := translateX st2, targetTranslateY := translateY st2\<rparr>
      in st3\<lparr>scale := tempScale, translateX := tempTranslateX, translateY := tempTranslateY\<rparr>)"

definition easeOutQuart :: "real \<Rightarrow> real" where
  "easeOutQuart t = 1 - (1 - t) ^ 4"

section \<open>LOD selection\<close>

definition getMemoryPressureModifier :: "engine \<Rightarrow> real" where
  "getMemoryPressureModifier st =
     (case memoryPressure st of
        Critical \<Rightarrow> 0.5
      | High \<Rightarrow> 0.7
      | Medium \<Rightarrow> 0.9
      | Low \<Rightarrow> 1)"

text \<open>
  The loop \<^verbatim>\<open>for (const [i, lodLevel] of LOD_LEVELS.entries())\<close> of \<^verbatim>\<open>selectOptimalLOD\<close>: the
  index of the first level whose adjusted threshold admits the relative scale, \<open>None\<close> when
  the loop runs to its end.
\<close>

fun lodLoop :: "lod_level list \<Rightarrow> int \<Rightarrow> real \<Rightarrow> real \<Rightarrow> int option" where
  "lodLoop [] i relativeScale pressureModifier = None"
| "lodLoop (lodLevel # rest) i relativeScale pressureModifier =
     (let adjustedMaxScale = maxViewportScale lodLevel * pressureModifier
      in if relativeScale \<le> adjustedMaxScale then Some i
         else lodLoop rest (i + 1) relativeScale pressureModifier)"

definition selectOptimalLOD :: "lod_level list \<Rightarrow> engine \<Rightarrow> int" where
  "selectOptimalLOD lods st =
     (if \<not> imageLoaded st then 3
      else
        let fitToScreenScale = getFitToScreenScale st;
            relativeScale = scale st / fitToScreenScale;
            pressureModifier = getMemoryPressureModifier st
        in case lodLoop lods 0 relativeScale pressureModifier of
             Some i \<Rightarrow> i
           | None \<Rightarrow> int (length lods) - 1)"


section \<open>Texture factory and LOD cache\<close>

datatype error = DecodeFailure | TypeError | TextureFailure

text \<open>
  What the GL context and the canvas answer during one texture production:
  \<^item> \<open>GlOk\<close>: the texture is created and uploaded, \<^verbatim>\<open>getError()\<close> reports no error;
  \<^item> \<open>GlNoTexture\<close>: \<^verbatim>\<open>gl.createTexture()\<close> returns \<^verbatim>\<open>null\<close>;
  \<^item> \<open>GlError\<close>: the upload (or the bitmap conversion) fails after allocation; the source deletes
    the texture and reports \<^verbatim>\<open>null\<close>;
  \<^item> \<open>GlThrows\<close>: an exception is raised after allocation and caught by the enclosing
    \<^verbatim>\<open>catch\<close>, which reports \<^verbatim>\<open>null\<close> without deleting the texture.
\<close>

datatype gl_outcome = GlOk | GlNoTexture | GlError | GlThrows

record factoryEnv =
  decoded :: "(real \<times> real) option"
  offscreenOutcome :: gl_outcome
  mainOutcome :: gl_outcome
  fallbackOutcome :: gl_outcome
  clock :: real

definition getEffectiveMaxTextureSize :: "engine \<Rightarrow> real" where
  "getEffectiveMaxTextureSize st =
     (case memoryPressure st of
        Critical \<Rightarrow> min (maxTextureSize st) 2048
      | High \<Rightarrow> min (maxTextureSize st) 4096
      | Medium \<Rightarrow> min (maxTextureSize st) 8192
      | Low \<Rightarrow> maxTextureSize st)"

definition applyMemoryConstraints :: "engine \<Rightarrow> real \<Rightarrow> real \<Rightarrow> real \<times> real" where
  "applyMemoryConstraints st w h =
     (let estimatedMemory = w * h * 4;
          maxSingleTextureMemory = textureMemoryLimit st * 0.3
      in if estimatedMemory > maxSingleTextureMemory then
           (let scaleFactor = sqrt (maxSingleTextureMemory / estimatedMemory)
            in (max 1 (mathRound (w * scaleFactor)), max 1 (mathRound (h * scaleFactor))))
         else
           let maxSize = getEffectiveMaxTextureSize st
           in if w > maxSize \<or> h > maxSize then
                (let aspectRatio = w / h
                 in if aspectRatio > 1 then (maxSize, mathRound (maxSize / aspectRatio))
                    else (mathRound (maxSize * aspectRatio), maxSize))
              else (w, h))"

definition updateMemoryUsage :: "engine \<Rightarrow> engine" where
  "updateMemoryUsage st = st\<lparr>textureMemory := sum_list (map (\<lambda>(l, info). memory info) (lodTextures st))\<rparr>"

text \<open>
  The GL part shared by \<^verbatim>\<open>createTextureMainThread\<close> and \<^verbatim>\<open>createTextureOffscreen\<close>: allocate,
  upload, check \<^verbatim>\<open>getError()\<close>, then \<^verbatim>\<open>this.lodTextures.set(lodLevel, {...})\<close> and
  \<^verbatim>\<open>updateMemoryUsage()\<close>. Nothing here deletes a texture that is already in the cache.
\<close>

definition uploadTexture :: "gl_outcome \<Rightarrow> int \<Rightarrow> real \<Rightarrow> real \<Rightarrow> real \<Rightarrow> engine \<Rightarrow> nat option \<times> engine" where
  "uploadTexture outcome lodLevel finalWidth finalHeight now st =
     (case outcome of
        GlNoTexture \<Rightarrow> (None, st)
      | GlError \<Rightarrow> (None, st\<lparr>glNext := glNext st + 1\<rparr>)
      | GlThrows \<Rightarrow> (None, st\<lparr>glLive := insert (glNext st) (glLive st), glNext := glNext st + 1\<rparr>)
      | GlOk \<Rightarrow>
          let tex = glNext st;
              memoryUsage = finalWidth * finalHeight * 4;
              info = \<lparr>texture = tex, width = finalWidth, height = finalHeight,
                      memory = memoryUsage, lastUsed = now\<rparr>
          in (Some tex,
              updateMemoryUsage
                (st\<lparr>glLive := insert tex (glLive st), glNext := glNext st + 1,
                    lodTextures := AList.update lodLevel info (lodTextures st)\<rparr>)))"

definition targetSize :: "lod_level \<Rightarrow> real \<times> real \<Rightarrow> engine \<Rightarrow> real \<times> real" where
  "targetSize lodConfig img st =
     (let targetWidth = max 1 (mathRound (fst img * lod_level.scale lodConfig));
          targetHeight = max 1 (mathRound (snd img * lod_level.scale lodConfig))
      in applyMemoryConstraints st targetWidth targetHeight)"

text \<open>
  \<^verbatim>\<open>createTextureMainThread\<close> reads \<^verbatim>\<open>LOD_LEVELS[lodLevel].scale\<close> before its \<^verbatim>\<open>try\<close>: outside the
  table this raises a \<^verbatim>\<open>TypeError\<close>.
\<close>

definition createTextureMainThread ::
  "lod_level list \<Rightarrow> int \<Rightarrow> real \<times> real \<Rightarrow> gl_outcome \<Rightarrow> real \<Rightarrow> engine \<Rightarrow> error + (nat option \<times> engine)" where
  "createTextureMainThread lods lodLevel img outcome now st =
     (if lodLevel < 0 \<or> lodLevel \<ge> int (length lods) then Inl TypeError
      else
        let lodConfig = lods ! nat lodLevel;
            (finalWidth, finalHeight) = targetSize lodConfig img st
        in Inr (uploadTexture outcome lodLevel finalWidth finalHeight now st))"

text \<open>
  \<^verbatim>\<open>createTextureMainThreadAsync\<close> runs \<^verbatim>\<open>createTextureMainThread\<close> in an idle callback and turns
  every exception into \<^verbatim>\<open>null\<close>.
\<close>

definition createTextureMainThreadAsync ::
  "lod_level list \<Rightarrow> int \<Rightarrow> real \<times> real \<Rightarrow> gl_outcome \<Rightarrow> real \<Rightarrow> engine \<Rightarrow> nat option \<times> engine" where
  "createTextureMainThreadAsync lods lodLevel img outcome now st =
     (case createTextureMainThread lods lodLevel img outcome now st of
        Inl e \<Rightarrow> (None, st)
      | Inr r \<Rightarrow> r)"

text \<open>\<^verbatim>\<open>createTextureOffscreen\<close> is only called with \<open>lodLevel\<close> inside the table.\<close>

definition createTextureOffscreen ::
  "lod_level list \<Rightarrow> int \<Rightarrow> real \<times> real \<Rightarrow> gl_outcome \<Rightarrow> real \<Rightarrow> engine \<Rightarrow> nat option \<times> engine" where
  "createTextureOffscreen lods lodLevel img outcome now st =
     (if \<not> offscreenGL st then (None, st)
      else
        let lodConfig = lods ! nat lodLevel;
            (finalWidth, finalHeight) = targetSize lodConfig img st
        in uploadTexture outcome lodLevel finalWidth finalHeight now st)"

text \<open>
  \<^verbatim>\<open>createLODTextureAsync(lodLevel, sourceImage?)\<close>. Without a source image the original URL is
  decoded again; if that promise rejects, so does this one (\<open>Inl DecodeFailure\<close>).
\<close>

definition createLODTextureAsync ::
  "lod_level list \<Rightarrow> int \<Rightarrow> (real \<times> real) option \<Rightarrow> factoryEnv \<Rightarrow> engine \<Rightarrow> error + (nat option \<times> engine)" where
  "createLODTextureAsync lods lodLevel sourceImage env st =
     (if lodLevel < 0 \<or> lodLevel \<ge> int (length lods) then Inr (None, st)
      else
        case (case sourceImage of Some img \<Rightarrow> Some img | None \<Rightarrow> decoded env) of
          None \<Rightarrow> Inl DecodeFailure
        | Some img \<Rightarrow>
            if offscreenGL st then
              (case createTextureOffscreen lods lodLevel img (offscreenOutcome env) (clock env) st of
                 (Some tex, st') \<Rightarrow> Inr (Some tex, st')
               | (None, st') \<Rightarrow>
                   Inr (createTextureMainThreadAsync lods lodLevel img (mainOutcome env) (clock env) st'))
            else Inr (createTextureMainThreadAsync lods lodLevel img (mainOutcome env) (clock env) st))"

section \<open>LOD policy and swap protocol\<close>

text \<open>
  \<^verbatim>\<open>swapBuffers\<close> arms the back buffer and registers an animation-frame callback that closes
  over \<open>newLOD\<close>; \<open>swapCallback\<close> is that callback.
\<close>

definition swapBuffers :: "nat \<Rightarrow> int \<Rightarrow> engine \<Rightarrow> engine" where
  "swapBuffers newTexture newLOD st =
     st\<lparr>backTexture := Some newTexture, isBackBufferReady := True,
        rafQueue := rafQueue st @ [Swap newLOD]\<rparr>"

definition swapCallback :: "int \<Rightarrow> engine \<Rightarrow> engine" where
  "swapCallback newLOD st =
     (if isBackBufferReady st then
        st\<lparr>frontTexture := backTexture st, currentLOD := newLOD, isBackBufferReady := False\<rparr>
      else st)"

definition has :: "(int \<times> TextureInfo) list \<Rightarrow> int \<Rightarrow> bool" where
  "has cache l = (map_of cache l \<noteq> None)"

text \<open>
  \<^verbatim>\<open>preloadAdjacentLODs\<close> starts \<^verbatim>\<open>createLODTextureAsync\<close> for the next finer and the next coarser
  level that the cache lacks; each started production is a \<open>PreloadTask\<close>.
\<close>

definition preloadAdjacentLODs :: "lod_level list \<Rightarrow> int \<Rightarrow> engine \<Rightarrow> engine" where
  "preloadAdjacentLODs lods cur st =
     (let next = (if cur < int (length lods) - 1 \<and> \<not> has (lodTextures st) (cur + 1)
                  then [PreloadTask (cur + 1)] else []);
          prev = (if cur > 0 \<and> \<not> has (lodTextures st) (cur - 1)
                  then [PreloadTask (cur - 1)] else [])
      in st\<lparr>tasks := tasks st @ next @ prev\<rparr>)"

text \<open>
  \<^verbatim>\<open>updateLODIfNeeded\<close> up to its \<^verbatim>\<open>await\<close>: with the target texture in the cache the swap is armed
  at once; otherwise the production is started and the rest of the method (\<open>runTask\<close>
  below) runs when it completes.
\<close>

definition updateLODIfNeeded :: "lod_level list \<Rightarrow> engine \<Rightarrow> engine" where
  "updateLODIfNeeded lods st =
     (let optimalLOD = selectOptimalLOD lods st
      in if optimalLOD = currentLOD st then st
         else case map_of (lodTextures st) optimalLOD of
                Some info \<Rightarrow> preloadAdjacentLODs lods optimalLOD (swapBuffers (texture info) optimalLOD st)
              | None \<Rightarrow> st\<lparr>tasks := tasks st @ [UpdateLODTask optimalLOD]\<rparr>)"

definition runTask :: "lod_level list \<Rightarrow> factoryEnv \<Rightarrow> task \<Rightarrow> engine \<Rightarrow> engine" where
  "runTask lods env t st =
     (case t of
        PreloadTask l \<Rightarrow>
          (case createLODTextureAsync lods l None env st of
             Inl e \<Rightarrow> st
           | Inr (r, st') \<Rightarrow> st')
      | UpdateLODTask optimalLOD \<Rightarrow>
          (case createLODTextureAsync lods optimalLOD None env st of
             Inl e \<Rightarrow> st
           | Inr (None, st') \<Rightarrow> st'
           | Inr (Some newTexture, st') \<Rightarrow>
               preloadAdjacentLODs lods optimalLOD (swapBuffers newTexture optimalLOD st')))"

text \<open>The \<open>n\<close>-th production in flight completes.\<close>

definition completeTask :: "lod_level list \<Rightarrow> factoryEnv \<Rightarrow> nat \<Rightarrow> engine \<Rightarrow> engine" where
  "completeTask lods env n st =
     (if n < length (tasks st)
      then runTask lods env (tasks st ! n) (st\<lparr>tasks := take n (tasks st) @ drop (Suc n) (tasks st)\<rparr>)
      else st)"

section \<open>Memory monitor\<close>

definition checkMemoryPressure :: "engine \<Rightarrow> engine" where
  "checkMemoryPressure st =
     (let usageRatio = textureMemory st / textureMemoryLimit st
      in st\<lparr>memoryPressure :=
              (if usageRatio > 0.9 then Critical
               else if usageRatio > 0.7 then High
               else if usageRatio > 0.5 then Medium
               else Low)\<rparr>)"

definition toKeep :: "engine \<Rightarrow> int set" where
  "toKeep st = {currentLOD st, currentLOD st - 1, currentLOD st + 1}"

definition emergencyCleanup :: "engine \<Rightarrow> engine" where
  "emergencyCleanup st =
     (let evicted = filter (\<lambda>(lodLevel, textureInfo). lodLevel \<notin> toKeep st) (lodTextures st)
      in st\<lparr>glLive := glLive st - set (map (\<lambda>(lodLevel, textureInfo). texture textureInfo) evicted),
            lodTextures := filter (\<lambda>(lodLevel, textureInfo). lodLevel \<in> toKeep st) (lodTextures st)\<rparr>)"

definition cleanupOldTextures :: "real \<Rightarrow> engine \<Rightarrow> engine" where
  "cleanupOldTextures now st =
     (let maxAge = 30000;
          old = (\<lambda>(lodLevel, textureInfo). lodLevel \<noteq> currentLOD st \<and> now - lastUsed textureInfo > maxAge);
          evicted = filter old (lodTextures st)
      in st\<lparr>glLive := glLive st - set (map (\<lambda>(lodLevel, textureInfo). texture textureInfo) evicted),
            lodTextures := filter (\<lambda>e. \<not> old e) (lodTextures st)\<rparr>)"

text \<open>The body of the one-second timer of \<^verbatim>\<open>startMemoryMonitoring\<close>.\<close>

definition updateMemoryInfo :: "real \<Rightarrow> engine \<Rightarrow> engine" where
  "updateMemoryInfo now st =
     (let st1 = checkMemoryPressure (updateMemoryUsage st)
      in if memoryPressure st1 = Critical then emergencyCleanup st1
         else if memoryPressure st1 = High then cleanupOldTextures now st1
         else st1)"


section \<open>Loading an image\<close>

text \<open>
  \<^verbatim>\<open>createInitialTexture\<close>: the asynchronous factory first, the synchronous one as fallback. The
  engine is returned together with the exception thrown, if any.
\<close>

definition createInitialTexture ::
  "lod_level list \<Rightarrow> real \<times> real \<Rightarrow> factoryEnv \<Rightarrow> engine \<Rightarrow> error option \<times> engine" where
  "createInitialTexture lods img env st =
     (let optimalLOD = selectOptimalLOD lods st
      in case createLODTextureAsync lods optimalLOD (Some img) env st of
           Inl e \<Rightarrow> (Some e, st)
         | Inr (Some tex, st') \<Rightarrow> (None, st'\<lparr>currentLOD := optimalLOD, frontTexture := Some tex\<rparr>)
         | Inr (None, st') \<Rightarrow>
             (case createTextureMainThread lods optimalLOD img (fallbackOutcome env) (clock env) st' of
                Inl e \<Rightarrow> (Some e, st')
              | Inr (Some fallbackTexture, st'') \<Rightarrow>
                  (None, st''\<lparr>currentLOD := optimalLOD, frontTexture := Some fallbackTexture\<rparr>)
              | Inr (None, st'') \<Rightarrow> (Some TextureFailure, st'')))"

text \<open>
  \<^verbatim>\<open>loadImage(url)\<close>. \<open>decodeResult\<close> is what the promise of \<^verbatim>\<open>loadImageAsync(url)\<close> settles to:
  the dimensions of the decoded image, or \<open>None\<close> when it rejects. The first statement,
  \<^verbatim>\<open>this.originalImageSrc = url\<close>, runs before the \<^verbatim>\<open>try\<close>; the \<^verbatim>\<open>catch\<close> rethrows.
\<close>

definition loadImage ::
  "lod_level list \<Rightarrow> string \<Rightarrow> (real \<times> real) option \<Rightarrow> factoryEnv \<Rightarrow> engine \<Rightarrow> error option \<times> engine" where
  "loadImage lods url decodeResult env st =
     (let st1 = st\<lparr>originalImageSrc := url\<rparr>
      in case decodeResult of
           None \<Rightarrow> (Some DecodeFailure, st1)
         | Some img \<Rightarrow>
             let st2 = st1\<lparr>imageWidth := fst img, imageHeight := snd img\<rparr>;
                 st3 = (if centerOnInit (cfg st2) then fitImageToScreen st2
                        else st2\<lparr>scale := getFitToScreenScale st2 * initialScale (cfg st2)\<rparr>)
             in case createInitialTexture lods img env st3 of
                  (Some e, st4) \<Rightarrow> (Some e, st4)
                | (None, st4) \<Rightarrow> (None, updateLODIfNeeded lods (st4\<lparr>imageLoaded := True\<rparr>)))"

section \<open>Render loop\<close>

text \<open>
  The progress \<^verbatim>\<open>Math.min(elapsed / this.animationDuration, 1)\<close>. With a duration of zero the
  quotient is \<^verbatim>\<open>Infinity\<close> for a positive \<open>elapsed\<close> (progress 1) and \<^verbatim>\<open>NaN\<close> or
  \<^verbatim>\<open>-Infinity\<close> otherwise, which no real number represents: \<open>None\<close>.
\<close>

definition animationProgress :: "real \<Rightarrow> real \<Rightarrow> real option" where
  "animationProgress elapsed duration =
     (if duration \<noteq> 0 then Some (min (elapsed / duration) 1)
      else if elapsed > 0 then Some 1
      else None)"

definition updateAnimation :: "lod_level list \<Rightarrow> real \<Rightarrow> engine \<Rightarrow> engine option" where
  "updateAnimation lods currentTime st =
     (let elapsed = currentTime - animationStartTime st
      in case animationProgress elapsed (animationDuration st) of
           None \<Rightarrow> None
         | Some progress \<Rightarrow>
             let easedProgress = (if smooth (cfg st) then easeOutQuart progress else progress);
                 st1 = st\<lparr>scale := startScale st + (targetScale st - startScale st) * easedProgress,
                          translateX := startTranslateX st
                             + (targetTranslateX st - startTranslateX st) * easedProgress,
                          translateY := startTranslateY st
                             + (targetTranslateY st - startTranslateY st) * easedProgress\<rparr>
             in if progress \<ge> 1 then
                  Some (updateLODIfNeeded lods
                          (st1\<lparr>isAnimating := False, scale := targetScale st1,
                               translateX := targetTranslateX st1,
                               translateY := targetTranslateY st1\<rparr>))
                else Some st1)"

definition createTransformMatrix :: "engine \<Rightarrow> real list" where
  "createTransformMatrix st =
     (let scaleX = (imageWidth st * scale st) / canvasWidth st;
          scaleY = (imageHeight st * scale st) / canvasHeight st;
          tX = (translateX st * 2) / canvasWidth st;
          tY = - (translateY st * 2) / canvasHeight st
      in [scaleX, 0, 0, 0, scaleY, 0, tX, tY, 1])"

text \<open>
  \<^verbatim>\<open>renderFrame\<close> changes nothing in the engine that is modelled here; its result is what
  it draws: nothing, or the texture bound to unit 0 and the matrix uploaded. The only
  texture it reads is \<open>frontTexture\<close>.
\<close>

definition renderFrame :: "engine \<Rightarrow> (nat \<times> real list) option" where
  "renderFrame st =
     (if frontTexture st = None \<or> \<not> imageLoaded st then None
      else Some (the (frontTexture st), createTransformMatrix st))"

text \<open>The callback \<^verbatim>\<open>render\<close> of \<^verbatim>\<open>startRenderLoop\<close>; it registers itself again.\<close>

definition render :: "lod_level list \<Rightarrow> real \<Rightarrow> engine \<Rightarrow> ((nat \<times> real list) option \<times> engine) option" where
  "render lods currentTime st =
     (case (if isAnimating st then updateAnimation lods currentTime st else Some st) of
        None \<Rightarrow> None
      | Some st1 \<Rightarrow> Some (renderFrame st1, st1\<lparr>rafQueue := rafQueue st1 @ [Render]\<rparr>))"

text \<open>
  One animation frame: the callbacks that were registered before the frame run in
  registration order; what they register runs in the next frame. The result lists what
  each \<open>Render\<close> callback drew.
\<close>

fun runCallbacks ::
  "lod_level list \<Rightarrow> real \<Rightarrow> raf list \<Rightarrow> (nat \<times> real list) option list \<times> engine
     \<Rightarrow> ((nat \<times> real list) option list \<times> engine) option" where
  "runCallbacks lods currentTime [] acc = Some acc"
| "runCallbacks lods currentTime (Render # cbs) (drawn, st) =
     (case render lods currentTime st of
        None \<Rightarrow> None
      | Some (d, st') \<Rightarrow> runCallbacks lods currentTime cbs (drawn @ [d], st'))"
| "runCallbacks lods currentTime (Swap newLOD # cbs) (drawn, st) =
     runCallbacks lods currentTime cbs (drawn, swapCallback newLOD st)"

definition runFrame ::
  "lod_level list \<Rightarrow> real \<Rightarrow> engine \<Rightarrow> ((nat \<times> real list) option list \<times> engine) option" where
  "runFrame lods currentTime st =
     runCallbacks lods currentTime (rafQueue st) ([], st\<lparr>rafQueue := []\<rparr>)"

section \<open>Zoom and input handlers\<close>

record hostEnv =
  dateNow :: real
  perfNow :: real
  rectLeft :: real
  rectTop :: real

definition zoomAt :: "lod_level list \<Rightarrow> hostEnv \<Rightarrow> real \<Rightarrow> real \<Rightarrow> real \<Rightarrow> bool \<Rightarrow> engine \<Rightarrow> engine" where
  "zoomAt lods host x y scaleFactor animated st =
     (let newScale = scale st * scaleFactor
      in if newScale < absoluteMinScale st \<or> newScale > effectiveMaxScale st then st
         else
           let zoomX = (x - canvasWidth st / 2 - translateX st) / scale st;
               zoomY = (y - canvasHeight st / 2 - translateY st) / scale st
           in if animated \<and> smooth (cfg st) then
                (let tTranslateX = x - canvasWidth st / 2 - zoomX * newScale;
                     tTranslateY = y - canvasHeight st / 2 - zoomY * newScale
                 in startAnimation newScale tTranslateX tTranslateY None (perfNow host) st)
              else
                updateLODIfNeeded lods
                  (constrainImagePosition
                     (st\<lparr>scale := newScale,
                         translateX := x - canvasWidth st / 2 - zoomX * newScale,
                         translateY := y - canvasHeight st / 2 - zoomY * newScale\<rparr>)))"

definition handleMouseDown :: "real \<Rightarrow> real \<Rightarrow> engine \<Rightarrow> engine" where
  "handleMouseDown clientX clientY st =
     (if isAnimating st \<or> panning_disabled (cfg st) then st
      else st\<lparr>isAnimating := False, isDragging := True,
              lastMouseX := clientX, lastMouseY := clientY\<rparr>)"

definition handleMouseMove :: "real \<Rightarrow> real \<Rightarrow> engine \<Rightarrow> engine" where
  "handleMouseMove clientX clientY st =
     (if \<not> isDragging st \<or> panning_disabled (cfg st) then st
      else
        let deltaX = clientX - lastMouseX st;
            deltaY = clientY - lastMouseY st
        in constrainImagePosition
             (st\<lparr>translateX := translateX st + deltaX, translateY := translateY st + deltaY,
                 lastMouseX := clientX, lastMouseY := clientY\<rparr>))"

definition handleMouseUp :: "engine \<Rightarrow> engine" where
  "handleMouseUp st = st\<lparr>isDragging := False\<rparr>"

definition handleWheel :: "lod_level list \<Rightarrow> hostEnv \<Rightarrow> real \<Rightarrow> real \<Rightarrow> real \<Rightarrow> engine \<Rightarrow> engine" where
  "handleWheel lods host clientX clientY deltaY st =
     (if isAnimating st \<or> wheel_wheelDisabled (cfg st) then st
      else
        let mouseX = clientX - rectLeft host;
            mouseY = clientY - rectTop host;
            scaleFactor = (if deltaY > 0 then 1 - wheel_step (cfg st) else 1 + wheel_step (cfg st))
        in zoomAt lods host mouseX mouseY scaleFactor False st)"

definition performDoubleClickAction :: "lod_level list \<Rightarrow> hostEnv \<Rightarrow> real \<Rightarrow> real \<Rightarrow> engine \<Rightarrow> engine" where
  "performDoubleClickAction lods host x y st0 =
     (let st = st0\<lparr>isAnimating := False\<rparr>
      in if doubleClick_mode (cfg st) = Toggle then
           (let fitToScreenScale = getFitToScreenScale st;
                originalSizeScale = 1;
                tScale = (if isOriginalSize st
                          then max (absoluteMinScale st) (min (effectiveMaxScale st) fitToScreenScale)
                          else max (absoluteMinScale st) (min (effectiveMaxScale st) originalSizeScale));
                zoomX = (x - canvasWidth st / 2 - translateX st) / scale st;
                zoomY = (y - canvasHeight st / 2 - translateY st) / scale st;
                tTranslateX = x - canvasWidth st / 2 - zoomX * tScale;
                tTranslateY = y - canvasHeight st / 2 - zoomY * tScale
            in (startAnimation tScale tTranslateX tTranslateY
                  (Some (doubleClick_animationTime (cfg st))) (perfNow host) st)
                 \<lparr>isOriginalSize := \<not> isOriginalSize st\<rparr>)
         else zoomAt lods host x y (doubleClick_step (cfg st)) False st)"

definition handleDoubleClick :: "lod_level list \<Rightarrow> hostEnv \<Rightarrow> real \<Rightarrow> real \<Rightarrow> engine \<Rightarrow> engine" where
  "handleDoubleClick lods host clientX clientY st =
     (if doubleClick_disabled (cfg st) then st
      else if dateNow host - lastDoubleClickTime st < 300 then st
      else performDoubleClickAction lods host (clientX - rectLeft host) (clientY - rectTop host)
             (st\<lparr>lastDoubleClickTime := dateNow host\<rparr>))"

definition handleTouchDoubleTap :: "lod_level list \<Rightarrow> hostEnv \<Rightarrow> real \<Rightarrow> real \<Rightarrow> engine \<Rightarrow> engine" where
  "handleTouchDoubleTap lods host clientX clientY st =
     (if doubleClick_disabled (cfg st) then st
      else performDoubleClickAction lods host (clientX - rectLeft host) (clientY - rectTop host) st)"

definition touchDistance :: "real \<times> real \<Rightarrow> real \<times> real \<Rightarrow> real" where
  "touchDistance touch1 touch2 =
     sqrt ((fst touch2 - fst touch1) ^ 2 + (snd touch2 - snd touch1) ^ 2)"

text \<open>\<open>touches\<close> is \<^verbatim>\<open>e.touches\<close>, each touch its \<^verbatim>\<open>(clientX, clientY)\<close>.\<close>

definition handleTouchStart :: "lod_level list \<Rightarrow> hostEnv \<Rightarrow> (real \<times> real) list \<Rightarrow> engine \<Rightarrow> engine" where
  "handleTouchStart lods host touches st =
     (if isAnimating st then st
      else if length touches = 1 \<and> \<not> panning_disabled (cfg st) then
        (let touch = touches ! 0;
             now = dateNow host
         in if \<not> doubleClick_disabled (cfg st) \<and> now - lastTouchTime st < 300
               \<and> \<bar>fst touch - lastTouchX st\<bar> < 50 \<and> \<bar>snd touch - lastTouchY st\<bar> < 50
            then (handleTouchDoubleTap lods host (fst touch) (snd touch) st)\<lparr>lastTouchTime := 0\<rparr>
            else st\<lparr>isDragging := True, lastMouseX := fst touch, lastMouseY := snd touch,
                    lastTouchTime := now, lastTouchX := fst touch, lastTouchY := snd touch\<rparr>)
      else if length touches = 2 \<and> \<not> pinch_disabled (cfg st) then
        st\<lparr>isDragging := False, lastTouchDistance := touchDistance (touches ! 0) (touches ! 1)\<rparr>
      else st)"

definition handleTouchMove :: "lod_level list \<Rightarrow> hostEnv \<Rightarrow> (real \<times> real) list \<Rightarrow> engine \<Rightarrow> engine" where
  "handleTouchMove lods host touches st =
     (if length touches = 1 \<and> isDragging st \<and> \<not> panning_disabled (cfg st) then
        (let deltaX = fst (touches ! 0) - lastMouseX st;
             deltaY = snd (touches ! 0) - lastMouseY st
         in constrainImagePosition
              (st\<lparr>translateX := translateX st + deltaX, translateY := translateY st + deltaY,
                  lastMouseX := fst (touches ! 0), lastMouseY := snd (touches ! 0)\<rparr>))
      else if length touches = 2 \<and> \<not> pinch_disabled (cfg st) then
        (let touch1 = touches ! 0;
             touch2 = touches ! 1;
             distance = touchDistance touch1 touch2;
             st1 = (if lastTouchDistance st > 0 then
                      (let scaleFactor = distance / lastTouchDistance st;
                           centerX = (fst touch1 + fst touch2) / 2;
                           centerY = (snd touch1 + snd touch2) / 2
                       in zoomAt lods host (centerX - rectLeft host) (centerY - rectTop host)
                            scaleFactor False st)
                    else st)
         in st1\<lparr>lastTouchDistance := distance\<rparr>)
      else st)"

definition handleTouchEnd :: "engine \<Rightarrow> engine" where
  "handleTouchEnd st = st\<lparr>isDragging := False, lastTouchDistance := 0\<rparr>"

section \<open>Public control surface\<close>

definition zoomIn :: "lod_level list \<Rightarrow> hostEnv \<Rightarrow> bool \<Rightarrow> engine \<Rightarrow> engine" where
  "zoomIn lods host animated st =
     zoomAt lods host (canvasWidth st / 2) (canvasHeight st / 2) (1 + wheel_step (cfg st)) animated st"

definition zoomOut :: "lod_level list \<Rightarrow> hostEnv \<Rightarrow> bool \<Rightarrow> engine \<Rightarrow> engine" where
  "zoomOut lods host animated st =
     zoomAt lods host (canvasWidth st / 2) (canvasHeight st / 2) (1 - wheel_step (cfg st)) animated st"

definition resetView :: "hostEnv \<Rightarrow> engine \<Rightarrow> engine" where
  "resetView host st =
     (let fitToScreenScale = getFitToScreenScale st;
          tScale = fitToScreenScale * initialScale (cfg st)
      in startAnimation tScale 0 0 None (perfNow host) st)"

definition getScale :: "engine \<Rightarrow> real" where
  "getScale st = scale st"

text \<open>
  \<^verbatim>\<open>resizeCanvas\<close>, with the new CSS size of the canvas: the only caller of
  \<^verbatim>\<open>constrainScaleAndPosition\<close>.
\<close>

definition resizeCanvas :: "lod_level list \<Rightarrow> real \<Rightarrow> real \<Rightarrow> engine \<Rightarrow> engine" where
  "resizeCanvas lods rectWidth rectHeight st =
     (let st1 = st\<lparr>canvasWidth := rectWidth, canvasHeight := rectHeight\<rparr>
      in if imageLoaded st1 then updateLODIfNeeded lods (constrainScaleAndPosition st1) else st1)"


section \<open>The engine as a transition system\<close>

text \<open>
  Everything that can happen to an engine after its construction: a call of a public
  method, an input event, the completion of a texture production that is in flight, an
  animation frame, a tick of the memory timer.
\<close>

datatype event =
    LoadImage string "(real \<times> real) option" factoryEnv
  | TaskCompletes factoryEnv nat
  | AnimationFrame real
  | MemoryTimer real
  | MouseDown real real
  | MouseMove real real
  | MouseUp
  | Wheel hostEnv real real real
  | DoubleClick hostEnv real real
  | TouchStart hostEnv "(real \<times> real) list"
  | TouchMove hostEnv "(real \<times> real) list"
  | TouchEnd
  | ZoomIn hostEnv bool
  | ZoomOut hostEnv bool
  | ResetView hostEnv
  | Resize real real

text \<open>
  One event. An animation frame whose computation leaves the real numbers (see
  \<open>animationProgress\<close>) has no successor state in this model.
\<close>

fun step :: "lod_level list \<Rightarrow> event \<Rightarrow> engine \<Rightarrow> engine option" where
  "step lods (LoadImage url decodeResult env) st = Some (snd (loadImage lods url decodeResult env st))"
| "step lods (TaskCompletes env n) st = Some (completeTask lods env n st)"
| "step lods (AnimationFrame currentTime) st = map_option snd (runFrame lods currentTime st)"
| "step lods (MemoryTimer now) st = Some (updateMemoryInfo now st)"
| "step lods (MouseDown clientX clientY) st = Some (handleMouseDown clientX clientY st)"
| "step lods (MouseMove clientX clientY) st = Some (handleMouseMove clientX clientY st)"
| "step lods MouseUp st = Some (handleMouseUp st)"
| "step lods (Wheel host clientX clientY deltaY) st = Some (handleWheel lods host clientX clientY deltaY st)"
| "step lods (DoubleClick host clientX clientY) st = Some (handleDoubleClick lods host clientX clientY st)"
| "step lods (TouchStart host touches) st = Some (handleTouchStart lods host touches st)"
| "step lods (TouchMove host touches) st = Some (handleTouchMove lods host touches st)"
| "step lods TouchEnd st = Some (handleTouchEnd st)"
| "step lods (ZoomIn host animated) st = Some (zoomIn lods host animated st)"
| "step lods (ZoomOut host animated) st = Some (zoomOut lods host animated st)"
| "step lods (ResetView host) st = Some (resetView host st)"
| "step lods (Resize rectWidth rectHeight) st = Some (resizeCanvas lods rectWidth rectHeight st)"

text \<open>A sequence of events, from a given engine.\<close>

fun run :: "lod_level list \<Rightarrow> event list \<Rightarrow> engine \<Rightarrow> engine option" where
  "run lods [] st = Some st"
| "run lods (ev # evs) st = (case step lods ev st of None \<Rightarrow> None | Some st' \<Rightarrow> run lods evs st')"

section \<open>Construction and sample inputs\<close>

text \<open>
  The engine as the field initialisers and the constructor leave it, for a canvas of the
  given CSS size: no image, the render loop registered, the memory monitor run once on
  an empty cache.
\<close>

definition newEngine :: "config \<Rightarrow> real \<Rightarrow> real \<Rightarrow> real \<Rightarrow> real \<Rightarrow> bool \<Rightarrow> engine" where
  "newEngine c rectWidth rectHeight maxSize memoryLimit offscreen =
     \<lparr>frontTexture = None, backTexture = None, isBackBufferReady = False,
      originalImageSrc = [], imageWidth = 0, imageHeight = 0,
      canvasWidth = rectWidth, canvasHeight = rectHeight, imageLoaded = False,
      scale = 1, translateX = 0, translateY = 0,
      targetScale = 1, targetTranslateX = 0, targetTranslateY = 0,
      isDragging = False, lastMouseX = 0, lastMouseY = 0, lastTouchDistance = 0,
      isOriginalSize = False, lastDoubleClickTime = 0,
      lastTouchTime = 0, lastTouchX = 0, lastTouchY = 0,
      isAnimating = False, animationStartTime = 0, animationDuration = 300,
      startScale = 1, startTranslateX = 0, startTranslateY = 0,
      currentLOD = 0, lodTextures = [], maxTextureSize = maxSize,
      textureMemoryLimit = memoryLimit, textureMemory = 0, memoryPressure = Low,
      offscreenGL = offscreen, cfg = c,
      glLive = {}, glNext = 0, rafQueue = [Render], tasks = []\<rparr>"

text \<open>
  Modelled from the spec: the table \<^verbatim>\<open>LOD_LEVELS\<close> of \<^verbatim>\<open>./constants\<close> is not among the sources.
  This is a sample table of five levels as section 3 of the specification asks: downscale
  factors in \<open>(0, 1]\<close>, factors and thresholds non-decreasing. It is used only to run the
  functions on concrete inputs.
\<close>

definition sampleLods :: "lod_level list" where
  "sampleLods =
     [\<lparr>lod_level.scale = 1 / 8, maxViewportScale = 1 / 4\<rparr>,
      \<lparr>lod_level.scale = 1 / 4, maxViewportScale = 1 / 2\<rparr>,
      \<lparr>lod_level.scale = 1 / 2, maxViewportScale = 1\<rparr>,
      \<lparr>lod_level.scale = 3 / 4, maxViewportScale = 2\<rparr>,
      \<lparr>lod_level.scale = 1, maxViewportScale = 4\<rparr>]"

text \<open>The configuration of the end-to-end scenarios: relative scales 1, 0.1 and 10.\<close>

definition sampleConfig :: config where
  "sampleConfig =
     \<lparr>initialScale = 1, minScale = 1 / 10, maxScale = 10,
      wheel_step = 1 / 10, wheel_wheelDisabled = False, panning_disabled = False,
      pinch_disabled = False, doubleClick_disabled = False, doubleClick_mode = Toggle,
      doubleClick_step = 2, doubleClick_animationTime = 0,
      smooth = True, centerOnInit = True, limitToBounds = True\<rparr>"

definition sampleEnv :: factoryEnv where
  "sampleEnv = \<lparr>decoded = Some (1600, 1200), offscreenOutcome = GlOk, mainOutcome = GlOk,
                fallbackOutcome = GlOk, clock = 1000\<rparr>"

definition sampleHost :: hostEnv where
  "sampleHost = \<lparr>dateNow = 5000, perfNow = 5000, rectLeft = 0, rectTop = 0\<rparr>"

text \<open>
  A desktop engine (texture budget \<open>\<lfloor>512 MiB \<times> 0.6\<rfloor>\<close>) on an 800 by 600 canvas, and the
  same engine after \<^verbatim>\<open>loadImage\<close> of a 1600 by 1200 image.
\<close>

definition sampleEngine :: engine where
  "sampleEngine = newEngine sampleConfig 800 600 16384 322122547 False"

definition loadedEngine :: engine where
  "loadedEngine = snd (loadImage sampleLods ''a.jpg'' (Some (1600, 1200)) sampleEnv sampleEngine)"

text \<open>
  The same engine once the texture of the selected level has been produced
  (\<open>lodReadyEngine\<close>), and once the preload started by that LOD change has completed too
  (\<open>crowdedEngine\<close>).
\<close>

definition lodReadyEngine :: engine where
  "lodReadyEngine = completeTask sampleLods sampleEnv 0 loadedEngine"

definition crowdedEngine :: engine where
  "crowdedEngine = completeTask sampleLods sampleEnv 0 lodReadyEngine"

text \<open>The events that lead from the sample engine to \<open>crowdedEngine\<close>.\<close>

definition sampleEvents :: "event list" where
  "sampleEvents =
     [LoadImage ''a.jpg'' (Some (1600, 1200)) sampleEnv,
      TaskCompletes sampleEnv 0,
      TaskCompletes sampleEnv 0]"

text \<open>The loaded engine with \<^verbatim>\<open>resetView()\<close> in flight.\<close>

definition animatingEngine :: engine where
  "animatingEngine = resetView sampleHost loadedEngine"



text \<open>
  Scenario 1 of the specification: an 8000 by 6000 image in the 800 by 600 canvas, at
  fit scale \<open>0.1\<close>, centred.
\<close>

definition scenarioEngine :: engine where
  "scenarioEngine =
     sampleEngine\<lparr>imageWidth := 8000, imageHeight := 6000, imageLoaded := True, scale := 1 / 10\<rparr>"

text \<open>A configuration that forbids zooming out below twice the fit scale, and its engine after load.\<close>

definition strictConfig :: config where
  "strictConfig = sampleConfig\<lparr>minScale := 2\<rparr>"

definition strictEngine :: engine where
  "strictEngine =
     snd (loadImage sampleLods ''a.jpg'' (Some (1600, 1200)) sampleEnv
            (newEngine strictConfig 800 600 16384 322122547 False))"





section \<open>Notions used in the statements\<close>

text \<open>
  The image-space point shown under the viewport point \<open>(x, y)\<close>: the pair
  \<^verbatim>\<open>(zoomX, zoomY)\<close> that \<^verbatim>\<open>zoomAt\<close> computes.
\<close>

definition imagePointUnder :: "engine \<Rightarrow> real \<Rightarrow> real \<Rightarrow> real \<times> real" where
  "imagePointUnder st x y =
     ((x - canvasWidth st / 2 - translateX st) / scale st,
      (y - canvasHeight st / 2 - translateY st) / scale st)"


text \<open>The transform that \<^verbatim>\<open>zoomAt\<close> assigns before it calls \<^verbatim>\<open>constrainImagePosition\<close>.\<close>

definition zoomedUnconstrained :: "engine \<Rightarrow> real \<Rightarrow> real \<Rightarrow> real \<Rightarrow> engine" where
  "zoomedUnconstrained st x y scaleFactor =
     (let newScale = scale st * scaleFactor;
          zoomX = (x - canvasWidth st / 2 - translateX st) / scale st;
          zoomY = (y - canvasHeight st / 2 - translateY st) / scale st
      in st\<lparr>scale := newScale,
            translateX := x - canvasWidth st / 2 - zoomX * newScale,
            translateY := y - canvasHeight st / 2 - zoomY * newScale\<rparr>)"


text \<open>
  How one texture production relates the engine before and after: \<open>stored\<close> when it returns
  the texture \<open>tex\<close> for level \<open>l\<close>, \<open>untouched\<close> when it returns \<^verbatim>\<open>null\<close>.
\<close>

definition stored :: "int \<Rightarrow> nat \<Rightarrow> engine \<Rightarrow> engine \<Rightarrow> bool" where
  "stored l tex st st' \<longleftrightarrow>
     (\<exists>info. texture info = tex \<and> lodTextures st' = AList.update l info (lodTextures st))
     \<and> glLive st \<subseteq> glLive st' \<and> tex \<in> glLive st'"

definition untouched :: "engine \<Rightarrow> engine \<Rightarrow> bool" where
  "untouched st st' \<longleftrightarrow> lodTextures st' = lodTextures st \<and> glLive st \<subseteq> glLive st'"

text \<open>The keys of the cache are distinct and are levels of the table.\<close>

definition cacheInv :: "lod_level list \<Rightarrow> engine \<Rightarrow> bool" where
  "cacheInv lods st \<longleftrightarrow>
     distinct (map fst (lodTextures st))
     \<and> fst ` set (lodTextures st) \<subseteq> {0..<int (length lods)}"

text \<open>Two engines with the same transform, geometry and configuration.\<close>

definition sameView :: "engine \<Rightarrow> engine \<Rightarrow> bool" where
  "sameView st st' \<longleftrightarrow>
     scale st' = scale st \<and> translateX st' = translateX st \<and> translateY st' = translateY st
     \<and> canvasWidth st' = canvasWidth st \<and> canvasHeight st' = canvasHeight st
     \<and> imageWidth st' = imageWidth st \<and> imageHeight st' = imageHeight st \<and> cfg st' = cfg st"

section \<open>The sample runs, evaluated\<close>

lemmas run_defs =
  sampleEngine_def newEngine_def sampleConfig_def sampleEnv_def sampleLods_def sampleHost_def
  loadImage_def createInitialTexture_def createLODTextureAsync_def createTextureMainThreadAsync_def
  createTextureMainThread_def createTextureOffscreen_def uploadTexture_def targetSize_def
  applyMemoryConstraints_def getEffectiveMaxTextureSize_def updateMemoryUsage_def mathRound_def
  selectOptimalLOD_def getFitToScreenScale_def fitImageToScreen_def updateLODIfNeeded_def
  getMemoryPressureModifier_def preloadAdjacentLODs_def swapBuffers_def has_def completeTask_def
  runTask_def runFrame_def render_def renderFrame_def createTransformMatrix_def swapCallback_def
  absoluteMinScale_def effectiveMaxScale_def constrainImagePosition_def startAnimation_def
  resetView_def truthy_def Let_def

lemma loadedEngine_eq:
  "loadedEngine =
     sampleEngine\<lparr>originalImageSrc := ''a.jpg'', imageWidth := 1600, imageHeight := 1200,
        scale := 1 / 2, imageLoaded := True, currentLOD := 3, frontTexture := Some 0,
        lodTextures := [(3, \<lparr>texture = 0, width = 1200, height = 900, memory = 4320000, lastUsed = 1000\<rparr>)],
        textureMemory := 4320000, glLive := {0}, glNext := 1, tasks := [UpdateLODTask 2]\<rparr>"
  by (simp add: loadedEngine_def run_defs)

lemma lodReadyEngine_eq:
  "lodReadyEngine =
     loadedEngine\<lparr>backTexture := Some 1, isBackBufferReady := True,
        lodTextures := [(3, \<lparr>texture = 0, width = 1200, height = 900, memory = 4320000, lastUsed = 1000\<rparr>),
                        (2, \<lparr>texture = 1, width = 800, height = 600, memory = 1920000, lastUsed = 1000\<rparr>)],
        textureMemory := 6240000, glLive := {0, 1}, glNext := 2,
        rafQueue := [Render, Swap 2], tasks := [PreloadTask 1]\<rparr>"
  by (simp add: lodReadyEngine_def loadedEngine_eq run_defs insert_commute)

lemma crowdedEngine_eq:
  "crowdedEngine =
     lodReadyEngine\<lparr>
        lodTextures := [(3, \<lparr>texture = 0, width = 1200, height = 900, memory = 4320000, lastUsed = 1000\<rparr>),
                        (2, \<lparr>texture = 1, width = 800, height = 600, memory = 1920000, lastUsed = 1000\<rparr>),
                        (1, \<lparr>texture = 2, width = 400, height = 300, memory = 480000, lastUsed = 1000\<rparr>)],
        textureMemory := 6720000, glLive := {0, 1, 2}, glNext := 3, tasks := []\<rparr>"
  by (simp add: crowdedEngine_def lodReadyEngine_eq loadedEngine_eq run_defs insert_commute)

lemmas sample_eqs = crowdedEngine_eq lodReadyEngine_eq loadedEngine_eq





section \<open>Field lemmas\<close>

lemma constrainImagePosition_geometry:
  "scale (constrainImagePosition st) = scale st"
  "canvasWidth (constrainImagePosition st) = canvasWidth st"
  "canvasHeight (constrainImagePosition st) = canvasHeight st"
  "imageWidth (constrainImagePosition st) = imageWidth st"
  "imageHeight (constrainImagePosition st) = imageHeight st"
  "cfg (constrainImagePosition st) = cfg st"
  "targetScale (constrainImagePosition st) = targetScale st"
  "isAnimating (constrainImagePosition st) = isAnimating st"
  "animationDuration (constrainImagePosition st) = animationDuration st"
  by (simp_all add: constrainImagePosition_def Let_def)

lemma startAnimation_fields:
  "scale (startAnimation s tx ty a now st) = scale st"
  "targetScale (startAnimation s tx ty a now st) = s"
  "isAnimating (startAnimation s tx ty a now st)"
  by (simp_all add: startAnimation_def Let_def constrainImagePosition_geometry)

lemma updateLODIfNeeded_fields:
  "scale (updateLODIfNeeded lods st) = scale st"
  "targetScale (updateLODIfNeeded lods st) = targetScale st"
  "isAnimating (updateLODIfNeeded lods st) = isAnimating st"
  by (simp_all add: updateLODIfNeeded_def preloadAdjacentLODs_def swapBuffers_def Let_def
        split: option.splits)


lemma updateLODIfNeeded_geometry:
  "translateX (updateLODIfNeeded lods st) = translateX st"
  "translateY (updateLODIfNeeded lods st) = translateY st"
  "canvasWidth (updateLODIfNeeded lods st) = canvasWidth st"
  "canvasHeight (updateLODIfNeeded lods st) = canvasHeight st"
  by (simp_all add: updateLODIfNeeded_def preloadAdjacentLODs_def swapBuffers_def Let_def
        split: option.splits)

section \<open>Growth of the LOD cache\<close>

lemma uploadTexture_result:
  "uploadTexture oc l w h now st = (r, st')
    \<Longrightarrow> (case r of Some tex \<Rightarrow> stored l tex st st' | None \<Rightarrow> untouched st st')"
proof (cases oc)
  case GlOk
  let ?info = "\<lparr>texture = glNext st, width = w, height = h, memory = w * h * 4, lastUsed = now\<rparr>"
  assume a: "uploadTexture oc l w h now st = (r, st')"
  have r: "r = Some (glNext st)"
    and c: "lodTextures st' = AList.update l ?info (lodTextures st)"
    and g: "glLive st' = insert (glNext st) (glLive st)"
    using a GlOk by (auto simp add: uploadTexture_def updateMemoryUsage_def Let_def)
  have "texture ?info = glNext st" by simp
  then have "stored l (glNext st) st st'"
    unfolding stored_def using c g by blast
  then show ?thesis using r by simp
qed (auto simp add: uploadTexture_def untouched_def)

lemma createTextureOffscreen_result:
  "createTextureOffscreen lods l img oc now st = (r, st')
    \<Longrightarrow> (case r of Some tex \<Rightarrow> stored l tex st st' | None \<Rightarrow> untouched st st')"
  using uploadTexture_result
  by (auto simp add: createTextureOffscreen_def Let_def untouched_def
      split: if_splits prod.splits option.splits)

lemma createTextureMainThreadAsync_result:
  "createTextureMainThreadAsync lods l img oc now st = (r, st')
    \<Longrightarrow> (case r of Some tex \<Rightarrow> stored l tex st st' | None \<Rightarrow> untouched st st')"
  using uploadTexture_result
  by (auto simp add: createTextureMainThreadAsync_def createTextureMainThread_def Let_def untouched_def
      split: if_splits prod.splits option.splits)

lemma stored_after_untouched:
  "untouched st st1 \<Longrightarrow> stored l tex st1 st' \<Longrightarrow> stored l tex st st'"
  by (auto simp add: stored_def untouched_def)

lemma createLODTextureAsync_stored:
  assumes "createLODTextureAsync lods l src env st = Inr (Some tex, st')"
  shows "stored l tex st st' \<and> 0 \<le> l \<and> l < int (length lods)"
proof -
  have range: "0 \<le> l \<and> l < int (length lods)"
    using assms by (auto simp add: createLODTextureAsync_def split: if_splits)
  obtain img where img: "(case src of Some i \<Rightarrow> Some i | None \<Rightarrow> decoded env) = Some img"
    using assms range by (auto simp add: createLODTextureAsync_def split: if_splits option.splits)
  show ?thesis
  proof (cases "offscreenGL st")
    case False
    then have "createTextureMainThreadAsync lods l img (mainOutcome env) (clock env) st = (Some tex, st')"
      using assms range img by (simp add: createLODTextureAsync_def)
    then show ?thesis using createTextureMainThreadAsync_result range by fastforce
  next
    case True
    obtain r st1 where off: "createTextureOffscreen lods l img (offscreenOutcome env) (clock env) st = (r, st1)"
      by (cases "createTextureOffscreen lods l img (offscreenOutcome env) (clock env) st") auto
    show ?thesis
    proof (cases r)
      case (Some t)
      then have "t = tex \<and> st1 = st'"
        using assms range img True off by (simp add: createLODTextureAsync_def)
      then show ?thesis using createTextureOffscreen_result [OF off] Some range by simp
    next
      case None
      then have u: "untouched st st1" using createTextureOffscreen_result [OF off] by simp
      have "createTextureMainThreadAsync lods l img (mainOutcome env) (clock env) st1 = (Some tex, st')"
        using assms range img True off None by (simp add: createLODTextureAsync_def)
      then have "stored l tex st1 st'" using createTextureMainThreadAsync_result by fastforce
      then show ?thesis using u range stored_after_untouched by blast
    qed
  qed
qed

lemma cache_length_bound:
  assumes "distinct (map fst cache)" "fst ` set cache \<subseteq> {0..<int n}"
  shows "length cache \<le> n"
proof -
  have "length cache = card (set (map fst cache))"
    using assms(1) distinct_card [of "map fst cache"] by simp
  also have "\<dots> \<le> card {0..<int n}"
    using assms(2) by (intro card_mono) auto
  finally show ?thesis by simp
qed

subsection \<open>Functions that leave the cache alone\<close>

lemma cache_constrainImagePosition: "lodTextures (constrainImagePosition st) = lodTextures st"
  by (simp add: constrainImagePosition_def Let_def)

lemma cache_constrainScaleAndPosition: "lodTextures (constrainScaleAndPosition st) = lodTextures st"
  by (simp add: constrainScaleAndPosition_def cache_constrainImagePosition)

lemma cache_startAnimation: "lodTextures (startAnimation s tx ty a now st) = lodTextures st"
  by (simp add: startAnimation_def Let_def cache_constrainImagePosition)

lemma cache_updateLODIfNeeded: "lodTextures (updateLODIfNeeded lods st) = lodTextures st"
  by (simp add: updateLODIfNeeded_def preloadAdjacentLODs_def swapBuffers_def Let_def
      split: option.splits)

lemma cache_zoomAt: "lodTextures (zoomAt lods host x y k animated st) = lodTextures st"
  by (simp add: zoomAt_def Let_def cache_startAnimation cache_updateLODIfNeeded
      cache_constrainImagePosition)

lemma cache_performDoubleClickAction:
  "lodTextures (performDoubleClickAction lods host x y st) = lodTextures st"
  by (simp add: performDoubleClickAction_def Let_def cache_startAnimation cache_zoomAt)

lemma cache_handlers:
  "lodTextures (handleMouseDown cx cy st) = lodTextures st"
  "lodTextures (handleMouseMove cx cy st) = lodTextures st"
  "lodTextures (handleMouseUp st) = lodTextures st"
  "lodTextures (handleWheel lods host cx cy dy st) = lodTextures st"
  "lodTextures (handleDoubleClick lods host cx cy st) = lodTextures st"
  "lodTextures (handleTouchStart lods host touches st) = lodTextures st"
  "lodTextures (handleTouchMove lods host touches st) = lodTextures st"
  "lodTextures (handleTouchEnd st) = lodTextures st"
  "lodTextures (zoomIn lods host animated st) = lodTextures st"
  "lodTextures (zoomOut lods host animated st) = lodTextures st"
  "lodTextures (resetView host st) = lodTextures st"
  "lodTextures (resizeCanvas lods w h st) = lodTextures st"
  by (simp_all add: handleMouseDown_def handleMouseMove_def handleMouseUp_def handleWheel_def
      handleDoubleClick_def handleTouchStart_def handleTouchMove_def handleTouchEnd_def
      handleTouchDoubleTap_def zoomIn_def zoomOut_def resetView_def resizeCanvas_def Let_def
      cache_zoomAt cache_performDoubleClickAction cache_startAnimation
      cache_constrainImagePosition cache_constrainScaleAndPosition cache_updateLODIfNeeded)

lemma cache_swapCallback: "lodTextures (swapCallback l st) = lodTextures st"
  by (simp add: swapCallback_def)

lemma cache_render: "render lods t st = Some (d, st') \<Longrightarrow> lodTextures st' = lodTextures st"
  by (auto simp add: render_def updateAnimation_def Let_def cache_updateLODIfNeeded
      split: if_splits option.splits)

lemma cache_runCallbacks:
  "runCallbacks lods t cbs (drawn, st) = Some (drawn', st') \<Longrightarrow> lodTextures st' = lodTextures st"
proof (induction cbs arbitrary: drawn st)
  case Nil
  then show ?case by simp
next
  case (Cons cb cbs)
  show ?case
  proof (cases cb)
    case Render
    then obtain d st1 where r: "render lods t st = Some (d, st1)"
      and rest: "runCallbacks lods t cbs (drawn @ [d], st1) = Some (drawn', st')"
      using Cons.prems by (auto split: option.splits)
    show ?thesis using Cons.IH [OF rest] cache_render [OF r] by simp
  next
    case (Swap l)
    then have "runCallbacks lods t cbs (drawn, swapCallback l st) = Some (drawn', st')"
      using Cons.prems by simp
    then show ?thesis using Cons.IH cache_swapCallback by metis
  qed
qed

lemma cache_runFrame: "runFrame lods t st = Some (drawn, st') \<Longrightarrow> lodTextures st' = lodTextures st"
  using cache_runCallbacks [of lods t "rafQueue st" "[]" "st\<lparr>rafQueue := []\<rparr>" drawn st']
  by (simp add: runFrame_def)

subsection \<open>The cache keys stay distinct and inside the table\<close>

lemma cacheInv_cong: "lodTextures st' = lodTextures st \<Longrightarrow> cacheInv lods st' = cacheInv lods st"
  by (simp add: cacheInv_def)

lemma cacheInv_filter:
  "cacheInv lods st \<Longrightarrow> lodTextures st' = filter P (lodTextures st) \<Longrightarrow> cacheInv lods st'"
  by (auto simp add: cacheInv_def distinct_map_filter)

lemma cacheInv_stored:
  assumes "cacheInv lods st" "stored l tex st st'" "0 \<le> l" "l < int (length lods)"
  shows "cacheInv lods st'"
proof -
  obtain info where c: "lodTextures st' = AList.update l info (lodTextures st)"
    using assms(2) by (auto simp add: stored_def)
  have keys: "fst ` set (lodTextures st') = insert l (fst ` set (lodTextures st))"
    using c by (simp add: dom_update)
  have "distinct (map fst (lodTextures st'))"
    using c assms(1) by (simp add: cacheInv_def distinct_update)
  moreover have "fst ` set (lodTextures st') \<subseteq> {0..<int (length lods)}"
    using keys assms(1,3,4) by (simp add: cacheInv_def)
  ultimately show ?thesis by (simp add: cacheInv_def)
qed

lemma cacheInv_untouched: "cacheInv lods st \<Longrightarrow> untouched st st' \<Longrightarrow> cacheInv lods st'"
  by (simp add: cacheInv_def untouched_def)

lemma createTextureMainThread_inv:
  assumes "createTextureMainThread lods l img oc now st = Inr (r, st')" "cacheInv lods st"
  shows "cacheInv lods st'"
proof -
  have range: "0 \<le> l \<and> l < int (length lods)"
    using assms(1) by (auto simp add: createTextureMainThread_def split: if_splits)
  then have "createTextureMainThreadAsync lods l img oc now st = (r, st')"
    using assms(1) by (simp add: createTextureMainThreadAsync_def)
  then have "case r of Some tex \<Rightarrow> stored l tex st st' | None \<Rightarrow> untouched st st'"
    by (rule createTextureMainThreadAsync_result)
  then show ?thesis
  proof (cases r)
    case None
    assume "case r of Some tex \<Rightarrow> stored l tex st st' | None \<Rightarrow> untouched st st'"
    then have "untouched st st'" using None by simp
    then show ?thesis using assms(2) by (rule cacheInv_untouched [rotated])
  next
    case (Some tex)
    assume "case r of Some tex \<Rightarrow> stored l tex st st' | None \<Rightarrow> untouched st st'"
    then have "stored l tex st st'" using Some by simp
    then show ?thesis using assms(2) range by (intro cacheInv_stored [of lods st l tex st']) simp_all
  qed
qed

lemma createTextureMainThreadAsync_inv:
  assumes "createTextureMainThreadAsync lods l img oc now st = (r, st')" "cacheInv lods st"
  shows "cacheInv lods st'"
proof (cases "createTextureMainThread lods l img oc now st")
  case (Inl e)
  then have "st' = st" using assms(1) by (simp add: createTextureMainThreadAsync_def)
  then show ?thesis using assms(2) by simp
next
  case (Inr p)
  then have "createTextureMainThread lods l img oc now st = Inr (r, st')"
    using assms(1) by (simp add: createTextureMainThreadAsync_def)
  then show ?thesis using assms(2) by (rule createTextureMainThread_inv)
qed

lemma createLODTextureAsync_inv:
  assumes "createLODTextureAsync lods l src env st = Inr (r, st')" "cacheInv lods st"
  shows "cacheInv lods st'"
proof (cases "l < 0 \<or> l \<ge> int (length lods)")
  case True
  then show ?thesis using assms by (simp add: createLODTextureAsync_def)
next
  case False
  then have range: "0 \<le> l" "l < int (length lods)" by auto
  obtain img where img: "(case src of Some i \<Rightarrow> Some i | None \<Rightarrow> decoded env) = Some img"
    using assms(1) False by (auto simp add: createLODTextureAsync_def split: if_splits option.splits)
  show ?thesis
  proof (cases "offscreenGL st")
    case False
    then have "createTextureMainThreadAsync lods l img (mainOutcome env) (clock env) st = (r, st')"
      using assms(1) range img by (simp add: createLODTextureAsync_def)
    then show ?thesis using assms(2) by (rule createTextureMainThreadAsync_inv)
  next
    case True
    obtain r1 st1 where off:
      "createTextureOffscreen lods l img (offscreenOutcome env) (clock env) st = (r1, st1)"
      by (cases "createTextureOffscreen lods l img (offscreenOutcome env) (clock env) st") auto
    have inv1: "cacheInv lods st1"
    proof (cases r1)
      case None
      then have "untouched st st1" using createTextureOffscreen_result [OF off] by simp
      then show ?thesis using assms(2) by (rule cacheInv_untouched [rotated])
    next
      case (Some t)
      then have "stored l t st st1" using createTextureOffscreen_result [OF off] by simp
      then show ?thesis using assms(2) range by (intro cacheInv_stored [of lods st l t st1]) simp_all
    qed
    show ?thesis
    proof (cases r1)
      case (Some t)
      then have "st1 = st'"
        using assms(1) range img True off by (simp add: createLODTextureAsync_def)
      then show ?thesis using inv1 by simp
    next
      case None
      then have "createTextureMainThreadAsync lods l img (mainOutcome env) (clock env) st1 = (r, st')"
        using assms(1) range img True off by (simp add: createLODTextureAsync_def)
      then show ?thesis using inv1 by (rule createTextureMainThreadAsync_inv)
    qed
  qed
qed

lemma runTask_inv: "cacheInv lods st \<Longrightarrow> cacheInv lods (runTask lods env t st)"
proof (cases t)
  case (UpdateLODTask l)
  assume inv: "cacheInv lods st"
  show ?thesis
  proof (cases "createLODTextureAsync lods l None env st")
    case (Inl e)
    then show ?thesis using inv UpdateLODTask by (simp add: runTask_def)
  next
    case (Inr p)
    obtain r st' where p: "p = (r, st')" by (cases p)
    have "createLODTextureAsync lods l None env st = Inr (r, st')" using Inr p by simp
    then have inv': "cacheInv lods st'" using inv by (rule createLODTextureAsync_inv)
    show ?thesis
      using Inr p inv' UpdateLODTask
      by (cases r) (simp_all add: runTask_def cacheInv_def preloadAdjacentLODs_def swapBuffers_def Let_def)
  qed
next
  case (PreloadTask l)
  assume inv: "cacheInv lods st"
  show ?thesis
  proof (cases "createLODTextureAsync lods l None env st")
    case (Inl e)
    then show ?thesis using inv PreloadTask by (simp add: runTask_def)
  next
    case (Inr p)
    obtain r st' where p: "p = (r, st')" by (cases p)
    have "createLODTextureAsync lods l None env st = Inr (r, st')" using Inr p by simp
    then have inv': "cacheInv lods st'" using inv by (rule createLODTextureAsync_inv)
    show ?thesis using Inr p inv' PreloadTask by (simp add: runTask_def)
  qed
qed

lemma completeTask_inv: "cacheInv lods st \<Longrightarrow> cacheInv lods (completeTask lods env n st)"
  using runTask_inv [of lods "st\<lparr>tasks := take n (tasks st) @ drop (Suc n) (tasks st)\<rparr>" env "tasks st ! n"]
  by (simp add: completeTask_def cacheInv_def)

lemma createInitialTexture_inv:
  assumes "cacheInv lods st"
  shows "cacheInv lods (snd (createInitialTexture lods img env st))"
proof (cases "createLODTextureAsync lods (selectOptimalLOD lods st) (Some img) env st")
  case (Inl e)
  then show ?thesis using assms by (simp add: createInitialTexture_def Let_def)
next
  case (Inr p)
  obtain r st' where p: "p = (r, st')" by (cases p)
  have "createLODTextureAsync lods (selectOptimalLOD lods st) (Some img) env st = Inr (r, st')"
    using Inr p by simp
  then have inv': "cacheInv lods st'" using assms by (rule createLODTextureAsync_inv)
  show ?thesis
  proof (cases r)
    case (Some tex)
    then show ?thesis using Inr p inv' by (simp add: createInitialTexture_def Let_def cacheInv_def)
  next
    case None
    show ?thesis
    proof (cases "createTextureMainThread lods (selectOptimalLOD lods st) img (fallbackOutcome env) (clock env) st'")
      case (Inl e)
      then show ?thesis using Inr p None inv' by (simp add: createInitialTexture_def Let_def)
    next
      case (Inr q)
      obtain r2 st2 where q: "q = (r2, st2)" by (cases q)
      have "createTextureMainThread lods (selectOptimalLOD lods st) img (fallbackOutcome env) (clock env) st'
              = Inr (r2, st2)"
        using Inr q by simp
      then have "cacheInv lods st2" using inv' by (rule createTextureMainThread_inv)
      then show ?thesis
        using \<open>createLODTextureAsync lods (selectOptimalLOD lods st) (Some img) env st = Inr p\<close>
          p None Inr q
        by (cases r2) (simp_all add: createInitialTexture_def Let_def cacheInv_def)
    qed
  qed
qed

lemma afterInitialTexture_inv:
  assumes "cacheInv lods st3"
  shows "cacheInv lods
           (snd (case createInitialTexture lods img env st3 of
                   (Some e, st4) \<Rightarrow> (Some e, st4)
                 | (None, st4) \<Rightarrow> (None, updateLODIfNeeded lods (st4\<lparr>imageLoaded := True\<rparr>))))"
proof -
  obtain e st4 where c: "createInitialTexture lods img env st3 = (e, st4)"
    by (cases "createInitialTexture lods img env st3")
  have "cacheInv lods st4" using createInitialTexture_inv [OF assms, of img env] c by simp
  then show ?thesis
    using c by (cases e) (simp_all add: cacheInv_def cache_updateLODIfNeeded)
qed

lemma loadImage_inv:
  assumes "cacheInv lods st"
  shows "cacheInv lods (snd (loadImage lods url decodeResult env st))"
proof (cases decodeResult)
  case None
  then show ?thesis using assms by (simp add: loadImage_def cacheInv_def)
next
  case (Some img)
  show ?thesis
  proof (cases "centerOnInit (cfg st)")
    case True
    have "cacheInv lods (fitImageToScreen
            (st\<lparr>originalImageSrc := url, imageWidth := fst img, imageHeight := snd img\<rparr>))"
      using assms by (simp add: cacheInv_def fitImageToScreen_def)
    then show ?thesis
      using Some True afterInitialTexture_inv by (simp add: loadImage_def Let_def)
  next
    case False
    have "cacheInv lods
            (st\<lparr>originalImageSrc := url, imageWidth := fst img, imageHeight := snd img,
                scale := getFitToScreenScale
                           (st\<lparr>originalImageSrc := url, imageWidth := fst img, imageHeight := snd img\<rparr>)
                         * initialScale (cfg st)\<rparr>)"
      using assms by (simp add: cacheInv_def)
    then show ?thesis
      using Some False afterInitialTexture_inv by (simp add: loadImage_def Let_def)
  qed
qed

lemma updateMemoryInfo_inv: "cacheInv lods st \<Longrightarrow> cacheInv lods (updateMemoryInfo now st)"
proof -
  assume inv: "cacheInv lods st"
  let ?st1 = "checkMemoryPressure (updateMemoryUsage st)"
  have c1: "lodTextures ?st1 = lodTextures st"
    by (simp add: checkMemoryPressure_def updateMemoryUsage_def Let_def)
  then have inv1: "cacheInv lods ?st1" using inv by (simp add: cacheInv_def)
  have e: "cacheInv lods (emergencyCleanup ?st1)"
    using inv1 by (rule cacheInv_filter) (simp add: emergencyCleanup_def Let_def)
  have o: "cacheInv lods (cleanupOldTextures now ?st1)"
    using inv1 by (rule cacheInv_filter) (simp add: cleanupOldTextures_def Let_def)
  show ?thesis using inv1 e o by (simp add: updateMemoryInfo_def Let_def)
qed

lemma step_inv:
  assumes inv: "cacheInv lods st" and s: "step lods ev st = Some st'"
  shows "cacheInv lods st'"
proof (cases ev)
  case (LoadImage url decodeResult env)
  then have "st' = snd (loadImage lods url decodeResult env st)" using s by simp
  then show ?thesis using inv loadImage_inv by simp
next
  case (TaskCompletes env n)
  then have "st' = completeTask lods env n st" using s by simp
  then show ?thesis using inv completeTask_inv by simp
next
  case (AnimationFrame t)
  then obtain drawn where "runFrame lods t st = Some (drawn, st')"
    using s by auto
  then have "lodTextures st' = lodTextures st" by (rule cache_runFrame)
  then show ?thesis using inv by (simp add: cacheInv_def)
next
  case (MemoryTimer now)
  then have "st' = updateMemoryInfo now st" using s by simp
  then show ?thesis using inv updateMemoryInfo_inv by simp
next
  case (MouseDown cx cy)
  then have "lodTextures st' = lodTextures st" using s by (auto simp add: cache_handlers)
  then show ?thesis using inv by (simp add: cacheInv_def)
next
  case (MouseMove cx cy)
  then have "lodTextures st' = lodTextures st" using s by (auto simp add: cache_handlers)
  then show ?thesis using inv by (simp add: cacheInv_def)
next
  case MouseUp
  then have "lodTextures st' = lodTextures st" using s by (auto simp add: cache_handlers)
  then show ?thesis using inv by (simp add: cacheInv_def)
next
  case (Wheel host cx cy dy)
  then have "lodTextures st' = lodTextures st" using s by (auto simp add: cache_handlers)
  then show ?thesis using inv by (simp add: cacheInv_def)
next
  case (DoubleClick host cx cy)
  then have "lodTextures st' = lodTextures st" using s by (auto simp add: cache_handlers)
  then show ?thesis using inv by (simp add: cacheInv_def)
next
  case (TouchStart host touches)
  then have "lodTextures st' = lodTextures st" using s by (auto simp add: cache_handlers)
  then show ?thesis using inv by (simp add: cacheInv_def)
next
  case (TouchMove host touches)
  then have "lodTextures st' = lodTextures st" using s by (auto simp add: cache_handlers)
  then show ?thesis using inv by (simp add: cacheInv_def)
next
  case TouchEnd
  then have "lodTextures st' = lodTextures st" using s by (auto simp add: cache_handlers)
  then show ?thesis using inv by (simp add: cacheInv_def)
next
  case (ZoomIn host animated)
  then have "lodTextures st' = lodTextures st" using s by (auto simp add: cache_handlers)
  then show ?thesis using inv by (simp add: cacheInv_def)
next
  case (ZoomOut host animated)
  then have "lodTextures st' = lodTextures st" using s by (auto simp add: cache_handlers)
  then show ?thesis using inv by (simp add: cacheInv_def)
next
  case (ResetView host)
  then have "lodTextures st' = lodTextures st" using s by (auto simp add: cache_handlers)
  then show ?thesis using inv by (simp add: cacheInv_def)
next
  case (Resize w h)
  then have "lodTextures st' = lodTextures st" using s by (auto simp add: cache_handlers)
  then show ?thesis using inv by (simp add: cacheInv_def)
qed

lemma run_inv: "cacheInv lods st \<Longrightarrow> run lods evs st = Some st' \<Longrightarrow> cacheInv lods st'"
proof (induction evs arbitrary: st)
  case Nil
  then show ?case by simp
next
  case (Cons ev evs)
  from Cons.prems(2) obtain st1 where s: "step lods ev st = Some st1"
    and r: "run lods evs st1 = Some st'"
    by (auto split: option.splits)
  have "cacheInv lods st1" using Cons.prems(1) s by (rule step_inv)
  then show ?case using r by (rule Cons.IH)
qed

lemma newEngine_inv: "cacheInv lods (newEngine c w h ms ml off)"
  by (simp add: cacheInv_def newEngine_def)

text \<open>
  Claim C1, as amended. The cache is keyed by LOD level and is not single-entry. In every
  state that a sequence of events reaches from a new engine, the cache holds at most one
  texture per level of the table, hence at most \<open>L\<close> textures. When
  \<^verbatim>\<open>createLODTextureAsync\<close> returns a texture for level \<open>l\<close>, that texture is stored under key
  \<open>l\<close>; every other cached entry is kept as it was and no texture handle that was alive is
  deleted.
\<close>

theorem cache_one_texture_per_level:
  "(run lods evs (newEngine c w h ms ml off) = Some st
      \<longrightarrow> distinct (map fst (lodTextures st))
        \<and> fst ` set (lodTextures st) \<subseteq> {0..<int (length lods)}
        \<and> length (lodTextures st) \<le> length lods)
   \<and> (createLODTextureAsync lods l src env st0 = Inr (Some tex, st1)
      \<longrightarrow> map_option texture (map_of (lodTextures st1) l) = Some tex
        \<and> (\<forall>k. k \<noteq> l \<longrightarrow> map_of (lodTextures st1) k = map_of (lodTextures st0) k)
        \<and> glLive st0 \<subseteq> glLive st1 \<and> tex \<in> glLive st1)"
proof (intro conjI impI)
  assume r: "run lods evs (newEngine c w h ms ml off) = Some st"
  have "cacheInv lods st" using newEngine_inv r by (rule run_inv)
  then have d: "distinct (map fst (lodTextures st))"
    and k: "fst ` set (lodTextures st) \<subseteq> {0..<int (length lods)}"
    by (simp_all add: cacheInv_def)
  show "distinct (map fst (lodTextures st))" by (rule d)
  show "fst ` set (lodTextures st) \<subseteq> {0..<int (length lods)}" by (rule k)
  show "length (lodTextures st) \<le> length lods" using d k by (rule cache_length_bound)
next
  assume a: "createLODTextureAsync lods l src env st0 = Inr (Some tex, st1)"
  have s: "stored l tex st0 st1" using createLODTextureAsync_stored [OF a] by simp
  then obtain info where info: "texture info = tex"
      "lodTextures st1 = AList.update l info (lodTextures st0)"
    by (auto simp add: stored_def)
  show "map_option texture (map_of (lodTextures st1) l) = Some tex"
    using info by (simp add: update_conv')
  show "\<forall>k. k \<noteq> l \<longrightarrow> map_of (lodTextures st1) k = map_of (lodTextures st0) k"
    using info by (simp add: update_conv')
  show "glLive st0 \<subseteq> glLive st1" using s by (simp add: stored_def)
  show "tex \<in> glLive st1" using s by (simp add: stored_def)
qed

text \<open>
  The three sample events reach \<open>crowdedEngine\<close>, whose cache is within the bound; the
  production of level 2 on the loaded sample engine keeps the texture of level 3.
\<close>

theorem cache_one_texture_per_level_witness:
  "run sampleLods sampleEvents sampleEngine = Some crowdedEngine
   \<and> length (lodTextures crowdedEngine) \<le> length sampleLods
   \<and> createLODTextureAsync sampleLods 2 None sampleEnv loadedEngine
      = Inr (Some 1, snd (projr (createLODTextureAsync sampleLods 2 None sampleEnv loadedEngine)))
   \<and> map_option texture
        (map_of (lodTextures (snd (projr (createLODTextureAsync sampleLods 2 None sampleEnv loadedEngine)))) 2)
      = Some 1
   \<and> map_of (lodTextures (snd (projr (createLODTextureAsync sampleLods 2 None sampleEnv loadedEngine)))) 3
      = map_of (lodTextures loadedEngine) 3
   \<and> glLive loadedEngine
      \<subseteq> glLive (snd (projr (createLODTextureAsync sampleLods 2 None sampleEnv loadedEngine)))"
proof -
  have a: "run sampleLods sampleEvents (newEngine sampleConfig 800 600 16384 322122547 False)
             = Some crowdedEngine"
    by (simp add: sampleEvents_def crowdedEngine_def lodReadyEngine_def loadedEngine_def
        sampleEngine_def)
  have b: "createLODTextureAsync sampleLods 2 None sampleEnv loadedEngine
      = Inr (Some 1, snd (projr (createLODTextureAsync sampleLods 2 None sampleEnv loadedEngine)))"
    by (simp add: loadedEngine_eq run_defs)
  note r = cache_one_texture_per_level [of sampleLods sampleEvents sampleConfig 800 600 16384
      322122547 False crowdedEngine 2 None sampleEnv loadedEngine 1
      "snd (projr (createLODTextureAsync sampleLods 2 None sampleEnv loadedEngine))"]
  have ne: "(3::int) \<noteq> 2" by simp
  have r3: "map_of (lodTextures (snd (projr (createLODTextureAsync sampleLods 2 None sampleEnv loadedEngine)))) 3
      = map_of (lodTextures loadedEngine) 3"
    using r b ne by blast
  show ?thesis
    using a b r r3 by (simp add: sampleEngine_def)
qed

text \<open>
  Claim C1 as stated fails. After \<^verbatim>\<open>loadImage\<close>, one LOD change and the preload it starts, the
  cache of the sample engine holds the textures of levels 3, 2 and 1, and all three handles
  are alive: nothing was deleted before the new textures were allocated.
\<close>

theorem cache_holds_three_counterexample:
  "run sampleLods sampleEvents sampleEngine = Some crowdedEngine
   \<and> imageLoaded crowdedEngine \<and> map fst (lodTextures crowdedEngine) = [3, 2, 1]
   \<and> \<not> length (lodTextures crowdedEngine) \<le> 1
   \<and> glLive loadedEngine = {0} \<and> glLive crowdedEngine = {0, 1, 2}"
proof -
  have a: "run sampleLods sampleEvents sampleEngine = Some crowdedEngine"
    by (simp add: sampleEvents_def crowdedEngine_def lodReadyEngine_def loadedEngine_def)
  have b: "imageLoaded crowdedEngine \<and> map fst (lodTextures crowdedEngine) = [3, 2, 1]
     \<and> \<not> length (lodTextures crowdedEngine) \<le> 1
     \<and> glLive loadedEngine = {0} \<and> glLive crowdedEngine = {0, 1, 2}"
    by (simp add: sample_eqs sampleEngine_def newEngine_def)
  show ?thesis using a b by blast
qed

section \<open>Scale bounds\<close>

lemma effectiveMaxScale_ge_1: "1 \<le> effectiveMaxScale st"
  by (simp add: effectiveMaxScale_def Let_def)

lemma constrainScaleAndPosition_scale:
  "scale (constrainScaleAndPosition st)
     = (if scale st < absoluteMinScale st then absoluteMinScale st
        else if scale st > effectiveMaxScale st then effectiveMaxScale st else scale st)"
  by (simp add: constrainScaleAndPosition_def constrainImagePosition_geometry)

lemma zoomAt_scale:
  "scale (zoomAt lods host x y k animated st)
     = (if scale st * k < absoluteMinScale st \<or> scale st * k > effectiveMaxScale st
           \<or> (animated \<and> smooth (cfg st))
        then scale st else scale st * k)"
  by (simp add: zoomAt_def Let_def startAnimation_fields updateLODIfNeeded_fields
        constrainImagePosition_geometry)

lemma zoomAt_targetScale:
  "targetScale (zoomAt lods host x y k animated st)
     = (if \<not> (scale st * k < absoluteMinScale st \<or> scale st * k > effectiveMaxScale st)
           \<and> animated \<and> smooth (cfg st)
        then scale st * k else targetScale st)"
  by (simp add: zoomAt_def Let_def startAnimation_fields updateLODIfNeeded_fields
        constrainImagePosition_geometry)

lemma zoomAt_isAnimating:
  "isAnimating (zoomAt lods host x y k animated st) \<Longrightarrow> \<not> isAnimating st
    \<Longrightarrow> \<not> (scale st * k < absoluteMinScale st \<or> scale st * k > effectiveMaxScale st)
          \<and> animated \<and> smooth (cfg st)"
  by (auto simp add: zoomAt_def Let_def startAnimation_fields updateLODIfNeeded_fields
        constrainImagePosition_geometry split: if_splits)

lemma toggle_targetScale:
  "doubleClick_mode (cfg st) = Toggle \<Longrightarrow>
   targetScale (performDoubleClickAction lods host x y st)
     = max (absoluteMinScale st)
           (min (effectiveMaxScale st) (if isOriginalSize st then getFitToScreenScale st else 1))"
  by (simp add: performDoubleClickAction_def Let_def startAnimation_fields absoluteMinScale_def
      effectiveMaxScale_def getFitToScreenScale_def)

lemma sameView_refl: "sameView st st"
  by (simp add: sameView_def)

lemma sameView_trans: "sameView st st1 \<Longrightarrow> sameView st1 st2 \<Longrightarrow> sameView st st2"
  by (simp add: sameView_def)

lemma uploadTexture_view: "uploadTexture oc l w h now st = (r, st') \<Longrightarrow> sameView st st'"
  by (cases oc) (auto simp add: uploadTexture_def updateMemoryUsage_def sameView_def Let_def)

lemma createTextureOffscreen_view:
  "createTextureOffscreen lods l img oc now st = (r, st') \<Longrightarrow> sameView st st'"
proof (cases "offscreenGL st")
  case False
  assume "createTextureOffscreen lods l img oc now st = (r, st')"
  then show ?thesis using False by (simp add: createTextureOffscreen_def sameView_def)
next
  case True
  assume a: "createTextureOffscreen lods l img oc now st = (r, st')"
  obtain w h where wh: "targetSize (lods ! nat l) img st = (w, h)"
    by (cases "targetSize (lods ! nat l) img st")
  then have "uploadTexture oc l w h now st = (r, st')"
    using a True by (simp add: createTextureOffscreen_def Let_def)
  then show ?thesis by (rule uploadTexture_view)
qed

lemma createTextureMainThread_view:
  assumes "createTextureMainThread lods l img oc now st = Inr (r, st')"
  shows "sameView st st'"
proof -
  have range: "\<not> (l < 0 \<or> l \<ge> int (length lods))"
    using assms by (auto simp add: createTextureMainThread_def split: if_splits)
  obtain w h where wh: "targetSize (lods ! nat l) img st = (w, h)"
    by (cases "targetSize (lods ! nat l) img st")
  then have "uploadTexture oc l w h now st = (r, st')"
    using assms range by (simp add: createTextureMainThread_def Let_def)
  then show ?thesis by (rule uploadTexture_view)
qed

lemma createTextureMainThreadAsync_view:
  assumes "createTextureMainThreadAsync lods l img oc now st = (r, st')"
  shows "sameView st st'"
proof (cases "createTextureMainThread lods l img oc now st")
  case (Inl e)
  then have "st' = st" using assms by (simp add: createTextureMainThreadAsync_def)
  then show ?thesis by (simp add: sameView_refl)
next
  case (Inr p)
  then have "createTextureMainThread lods l img oc now st = Inr (r, st')"
    using assms by (simp add: createTextureMainThreadAsync_def)
  then show ?thesis by (rule createTextureMainThread_view)
qed

lemma createLODTextureAsync_view:
  assumes "createLODTextureAsync lods l src env st = Inr (r, st')"
  shows "sameView st st'"
proof (cases "l < 0 \<or> l \<ge> int (length lods)")
  case True
  then show ?thesis using assms by (simp add: createLODTextureAsync_def sameView_refl)
next
  case False
  obtain img where img: "(case src of Some i \<Rightarrow> Some i | None \<Rightarrow> decoded env) = Some img"
    using assms False by (auto simp add: createLODTextureAsync_def split: if_splits option.splits)
  show ?thesis
  proof (cases "offscreenGL st")
    case False
    then have "createTextureMainThreadAsync lods l img (mainOutcome env) (clock env) st = (r, st')"
      using assms \<open>\<not> (l < 0 \<or> l \<ge> int (length lods))\<close> img by (simp add: createLODTextureAsync_def)
    then show ?thesis by (rule createTextureMainThreadAsync_view)
  next
    case True
    obtain r1 st1 where off:
      "createTextureOffscreen lods l img (offscreenOutcome env) (clock env) st = (r1, st1)"
      by (cases "createTextureOffscreen lods l img (offscreenOutcome env) (clock env) st") auto
    have v1: "sameView st st1" using off by (rule createTextureOffscreen_view)
    show ?thesis
    proof (cases r1)
      case (Some t)
      then have "st1 = st'"
        using assms \<open>\<not> (l < 0 \<or> l \<ge> int (length lods))\<close> img True off
        by (simp add: createLODTextureAsync_def)
      then show ?thesis using v1 by simp
    next
      case None
      then have "createTextureMainThreadAsync lods l img (mainOutcome env) (clock env) st1 = (r, st')"
        using assms \<open>\<not> (l < 0 \<or> l \<ge> int (length lods))\<close> img True off
        by (simp add: createLODTextureAsync_def)
      then have "sameView st1 st'" by (rule createTextureMainThreadAsync_view)
      then show ?thesis using v1 sameView_trans by blast
    qed
  qed
qed

lemma createInitialTexture_view: "sameView st (snd (createInitialTexture lods img env st))"
proof (cases "createLODTextureAsync lods (selectOptimalLOD lods st) (Some img) env st")
  case (Inl e)
  then show ?thesis by (simp add: createInitialTexture_def Let_def sameView_refl)
next
  case (Inr p)
  obtain r st' where p: "p = (r, st')" by (cases p)
  have c: "createLODTextureAsync lods (selectOptimalLOD lods st) (Some img) env st = Inr (r, st')"
    using Inr p by simp
  then have v: "sameView st st'" by (rule createLODTextureAsync_view)
  show ?thesis
  proof (cases r)
    case (Some tex)
    then show ?thesis using c v by (simp add: createInitialTexture_def Let_def sameView_def)
  next
    case None
    show ?thesis
    proof (cases "createTextureMainThread lods (selectOptimalLOD lods st) img (fallbackOutcome env) (clock env) st'")
      case (Inl e)
      then show ?thesis using c None v by (simp add: createInitialTexture_def Let_def)
    next
      case (Inr q)
      obtain r2 st2 where q: "q = (r2, st2)" by (cases q)
      have "createTextureMainThread lods (selectOptimalLOD lods st) img (fallbackOutcome env) (clock env) st'
              = Inr (r2, st2)"
        using Inr q by simp
      then have "sameView st' st2" by (rule createTextureMainThread_view)
      then have "sameView st st2" using v sameView_trans by blast
      then show ?thesis
        using c None Inr q by (cases r2) (simp_all add: createInitialTexture_def Let_def sameView_def)
    qed
  qed
qed

lemma afterInitialTexture_view:
  "sameView st3
     (snd (case createInitialTexture lods img env st3 of
             (Some e, st4) \<Rightarrow> (Some e, st4)
           | (None, st4) \<Rightarrow> (None, updateLODIfNeeded lods (st4\<lparr>imageLoaded := True\<rparr>))))"
proof -
  obtain e st4 where c: "createInitialTexture lods img env st3 = (e, st4)"
    by (cases "createInitialTexture lods img env st3")
  have "sameView st3 st4" using createInitialTexture_view [of st3 lods img env] c by simp
  then show ?thesis
    using c by (cases e)
      (simp_all add: sameView_def updateLODIfNeeded_fields updateLODIfNeeded_geometry
        updateLODIfNeeded_def preloadAdjacentLODs_def swapBuffers_def Let_def split: option.splits)
qed

lemma getFitToScreenScale_view: "sameView st st' \<Longrightarrow> getFitToScreenScale st' = getFitToScreenScale st"
  by (simp add: sameView_def getFitToScreenScale_def)

lemma loadImage_scale:
  "scale (snd (loadImage lods url (Some img) env st))
     = getFitToScreenScale (snd (loadImage lods url (Some img) env st)) * initialScale (cfg st)"
proof (cases "centerOnInit (cfg st)")
  case True
  let ?st3 = "fitImageToScreen (st\<lparr>originalImageSrc := url, imageWidth := fst img, imageHeight := snd img\<rparr>)"
  have l: "snd (loadImage lods url (Some img) env st)
     = snd (case createInitialTexture lods img env ?st3 of
             (Some e, st4) \<Rightarrow> (Some e, st4)
           | (None, st4) \<Rightarrow> (None, updateLODIfNeeded lods (st4\<lparr>imageLoaded := True\<rparr>)))"
    using True by (simp add: loadImage_def Let_def)
  have v: "sameView ?st3 (snd (loadImage lods url (Some img) env st))"
    unfolding l by (rule afterInitialTexture_view)
  have "scale ?st3 = getFitToScreenScale ?st3 * initialScale (cfg st)"
    by (simp add: fitImageToScreen_def getFitToScreenScale_def)
  then show ?thesis
    using v getFitToScreenScale_view [OF v] by (simp add: sameView_def)
next
  case False
  let ?st2 = "st\<lparr>originalImageSrc := url, imageWidth := fst img, imageHeight := snd img\<rparr>"
  let ?st3 = "?st2\<lparr>scale := getFitToScreenScale ?st2 * initialScale (cfg st)\<rparr>"
  have l: "snd (loadImage lods url (Some img) env st)
     = snd (case createInitialTexture lods img env ?st3 of
             (Some e, st4) \<Rightarrow> (Some e, st4)
           | (None, st4) \<Rightarrow> (None, updateLODIfNeeded lods (st4\<lparr>imageLoaded := True\<rparr>)))"
    using False by (simp add: loadImage_def Let_def)
  have v: "sameView ?st3 (snd (loadImage lods url (Some img) env st))"
    unfolding l by (rule afterInitialTexture_view)
  have "scale ?st3 = getFitToScreenScale ?st3 * initialScale (cfg st)"
    by (simp add: getFitToScreenScale_def)
  then show ?thesis
    using v getFitToScreenScale_view [OF v] by (simp add: sameView_def)
qed

text \<open>
  Claim C2, as amended. The upper bound \<open>max(F\<cdot>maxRel, 1)\<close> is never below 1.
  \<^verbatim>\<open>constrainScaleAndPosition\<close> (run on resize) puts the scale into \<open>[F\<cdot>minRel, max(F\<cdot>maxRel, 1)]\<close>
  whenever that interval is not empty; \<^verbatim>\<open>zoomAt\<close> keeps a scale that is inside the interval
  inside it, and an animation it starts has its target inside; the target of the
  double-click toggle is clamped into the interval. \<^verbatim>\<open>startAnimation\<close> itself takes its target
  scale as given; \<^verbatim>\<open>resetView\<close> passes \<open>F\<cdot>initRel\<close> unclamped, and \<^verbatim>\<open>loadImage\<close> leaves the scale at
  \<open>F\<cdot>initRel\<close>.
\<close>

theorem scale_bounds_where_enforced:
  "1 \<le> effectiveMaxScale st
   \<and> (absoluteMinScale st \<le> effectiveMaxScale st
      \<longrightarrow> absoluteMinScale st \<le> scale (constrainScaleAndPosition st)
        \<and> scale (constrainScaleAndPosition st) \<le> effectiveMaxScale st)
   \<and> (absoluteMinScale st \<le> scale st \<and> scale st \<le> effectiveMaxScale st
      \<longrightarrow> absoluteMinScale st \<le> scale (zoomAt lods host x y k animated st)
        \<and> scale (zoomAt lods host x y k animated st) \<le> effectiveMaxScale st)
   \<and> (isAnimating (zoomAt lods host x y k animated st) \<and> \<not> isAnimating st
      \<longrightarrow> absoluteMinScale st \<le> targetScale (zoomAt lods host x y k animated st)
        \<and> targetScale (zoomAt lods host x y k animated st) \<le> effectiveMaxScale st)
   \<and> (doubleClick_mode (cfg st) = Toggle \<and> absoluteMinScale st \<le> effectiveMaxScale st
      \<longrightarrow> absoluteMinScale st \<le> targetScale (performDoubleClickAction lods host x y st)
        \<and> targetScale (performDoubleClickAction lods host x y st) \<le> effectiveMaxScale st)
   \<and> targetScale (startAnimation s tx ty a now st) = s
   \<and> targetScale (resetView host st) = getFitToScreenScale st * initialScale (cfg st)
   \<and> scale (snd (loadImage lods url (Some img) env st))
        = getFitToScreenScale (snd (loadImage lods url (Some img) env st)) * initialScale (cfg st)"
proof (intro conjI impI)
  show "1 \<le> effectiveMaxScale st" by (rule effectiveMaxScale_ge_1)
next
  assume "absoluteMinScale st \<le> effectiveMaxScale st"
  then show "absoluteMinScale st \<le> scale (constrainScaleAndPosition st)"
    and "scale (constrainScaleAndPosition st) \<le> effectiveMaxScale st"
    by (simp_all add: constrainScaleAndPosition_scale)
next
  assume "absoluteMinScale st \<le> scale st \<and> scale st \<le> effectiveMaxScale st"
  then show "absoluteMinScale st \<le> scale (zoomAt lods host x y k animated st)"
    and "scale (zoomAt lods host x y k animated st) \<le> effectiveMaxScale st"
    by (simp_all add: zoomAt_scale)
next
  assume h: "isAnimating (zoomAt lods host x y k animated st) \<and> \<not> isAnimating st"
  then have "\<not> (scale st * k < absoluteMinScale st \<or> scale st * k > effectiveMaxScale st)
          \<and> animated \<and> smooth (cfg st)"
    using zoomAt_isAnimating by blast
  then show "absoluteMinScale st \<le> targetScale (zoomAt lods host x y k animated st)"
    and "targetScale (zoomAt lods host x y k animated st) \<le> effectiveMaxScale st"
    by (simp_all add: zoomAt_targetScale)
next
  assume "doubleClick_mode (cfg st) = Toggle \<and> absoluteMinScale st \<le> effectiveMaxScale st"
  then show "absoluteMinScale st \<le> targetScale (performDoubleClickAction lods host x y st)"
    and "targetScale (performDoubleClickAction lods host x y st) \<le> effectiveMaxScale st"
    by (simp_all add: toggle_targetScale)
next
  show "targetScale (startAnimation s tx ty a now st) = s" by (simp add: startAnimation_fields)
next
  show "targetScale (resetView host st) = getFitToScreenScale st * initialScale (cfg st)"
    by (simp add: resetView_def Let_def startAnimation_fields)
next
  show "scale (snd (loadImage lods url (Some img) env st))
        = getFitToScreenScale (snd (loadImage lods url (Some img) env st)) * initialScale (cfg st)"
    by (rule loadImage_scale)
qed

text \<open>The bounds on the loaded sample engine, for an animated zoom by 2 and a double click.\<close>

theorem scale_bounds_where_enforced_witness:
  "absoluteMinScale loadedEngine \<le> effectiveMaxScale loadedEngine
   \<and> absoluteMinScale loadedEngine \<le> scale loadedEngine
   \<and> scale loadedEngine \<le> effectiveMaxScale loadedEngine
   \<and> isAnimating (zoomAt sampleLods sampleHost 400 300 2 True loadedEngine)
   \<and> \<not> isAnimating loadedEngine
   \<and> doubleClick_mode (cfg loadedEngine) = Toggle
   \<and> scale (constrainScaleAndPosition loadedEngine) \<le> effectiveMaxScale loadedEngine
   \<and> absoluteMinScale loadedEngine \<le> scale (zoomAt sampleLods sampleHost 400 300 2 True loadedEngine)
   \<and> targetScale (zoomAt sampleLods sampleHost 400 300 2 True loadedEngine)
        \<le> effectiveMaxScale loadedEngine
   \<and> targetScale (performDoubleClickAction sampleLods sampleHost 400 300 loadedEngine)
        \<le> effectiveMaxScale loadedEngine"
proof -
  have a: "absoluteMinScale loadedEngine \<le> effectiveMaxScale loadedEngine"
    and b: "absoluteMinScale loadedEngine \<le> scale loadedEngine \<and> scale loadedEngine \<le> effectiveMaxScale loadedEngine"
    and d: "\<not> isAnimating loadedEngine"
    and e: "doubleClick_mode (cfg loadedEngine) = Toggle"
    by (simp_all add: loadedEngine_eq run_defs)
  have c: "isAnimating (zoomAt sampleLods sampleHost 400 300 2 True loadedEngine)"
    by (simp add: zoomAt_def loadedEngine_eq run_defs)
  show ?thesis
    using a b c d e
      scale_bounds_where_enforced [of loadedEngine sampleLods sampleHost 400 300 2 True]
    by simp
qed

text \<open>
  Claim C2 as stated fails. With \<open>minScale = 2\<close> and \<open>initialScale = 1\<close> the scale after
  \<^verbatim>\<open>loadImage\<close> is \<open>F = 0.5\<close>, below \<open>F\<cdot>minRel = 1\<close>, and the target scale of \<^verbatim>\<open>resetView\<close> is
  below it too: neither is clamped.
\<close>

theorem scale_below_minimum_counterexample:
  "imageLoaded strictEngine \<and> scale strictEngine = 1 / 2 \<and> absoluteMinScale strictEngine = 1
   \<and> scale strictEngine < absoluteMinScale strictEngine
   \<and> targetScale (resetView sampleHost strictEngine) < absoluteMinScale strictEngine"
  by (simp add: strictEngine_def strictConfig_def run_defs)

section \<open>Zoom about a point\<close>

lemma zoomAt_unanimated:
  assumes "absoluteMinScale st \<le> scale st * k" "scale st * k \<le> effectiveMaxScale st"
    and "\<not> (animated \<and> smooth (cfg st))"
  shows "zoomAt lods host x y k animated st
         = updateLODIfNeeded lods (constrainImagePosition (zoomedUnconstrained st x y k))"
  using assms by (auto simp add: zoomAt_def zoomedUnconstrained_def Let_def)

lemma imagePointUnder_zoomed:
  assumes "scale st \<noteq> 0" "k \<noteq> 0"
  shows "imagePointUnder (zoomedUnconstrained st x y k) x y = imagePointUnder st x y"
  using assms by (simp add: imagePointUnder_def zoomedUnconstrained_def Let_def)

lemma imagePointUnder_updateLOD:
  "imagePointUnder (updateLODIfNeeded lods st) x y = imagePointUnder st x y"
  by (simp add: imagePointUnder_def updateLODIfNeeded_fields updateLODIfNeeded_geometry)

text \<open>
  Claim C3. An unanimated \<^verbatim>\<open>zoomAt(x, y, k)\<close> whose new scale is inside the bounds and whose
  transform \<^verbatim>\<open>constrainImagePosition\<close> leaves as it is shows the same image-space point under
  \<open>(x, y)\<close> before and after (the scales being non-zero, so that the point is defined; over
  the reals the two points are equal). From \<open>s = 0.1\<close>, \<open>tx = ty = 0\<close>, an 800 by 600 canvas and an
  8000 by 6000 image, \<^verbatim>\<open>zoomAt(400, 300, 10)\<close> gives \<open>s = 1\<close>, \<open>tx = 0\<close>, \<open>ty = 0\<close>.
\<close>

theorem zoomAt_fixes_anchor:
  "(absoluteMinScale st \<le> scale st * k \<and> scale st * k \<le> effectiveMaxScale st
      \<and> \<not> (animated \<and> smooth (cfg st)) \<and> scale st \<noteq> 0 \<and> k \<noteq> 0
      \<and> constrainImagePosition (zoomedUnconstrained st x y k) = zoomedUnconstrained st x y k
    \<longrightarrow> imagePointUnder (zoomAt lods host x y k animated st) x y = imagePointUnder st x y)
   \<and> (scale st = 1 / 10 \<and> translateX st = 0 \<and> translateY st = 0
      \<and> canvasWidth st = 800 \<and> canvasHeight st = 600
      \<and> imageWidth st = 8000 \<and> imageHeight st = 6000
      \<and> minScale (cfg st) = 1 / 10 \<and> maxScale (cfg st) = 10
    \<longrightarrow> scale (zoomAt lods host 400 300 10 False st) = 1
        \<and> translateX (zoomAt lods host 400 300 10 False st) = 0
        \<and> translateY (zoomAt lods host 400 300 10 False st) = 0)"
proof (intro conjI impI)
  assume h: "absoluteMinScale st \<le> scale st * k \<and> scale st * k \<le> effectiveMaxScale st
      \<and> \<not> (animated \<and> smooth (cfg st)) \<and> scale st \<noteq> 0 \<and> k \<noteq> 0
      \<and> constrainImagePosition (zoomedUnconstrained st x y k) = zoomedUnconstrained st x y k"
  then have "zoomAt lods host x y k animated st
         = updateLODIfNeeded lods (zoomedUnconstrained st x y k)"
    using zoomAt_unanimated [of st k animated lods host x y] by simp
  then show "imagePointUnder (zoomAt lods host x y k animated st) x y = imagePointUnder st x y"
    using h by (simp add: imagePointUnder_updateLOD imagePointUnder_zoomed)
next
  assume h: "scale st = 1 / 10 \<and> translateX st = 0 \<and> translateY st = 0
      \<and> canvasWidth st = 800 \<and> canvasHeight st = 600
      \<and> imageWidth st = 8000 \<and> imageHeight st = 6000
      \<and> minScale (cfg st) = 1 / 10 \<and> maxScale (cfg st) = 10"
  have z: "zoomAt lods host 400 300 10 False st
         = updateLODIfNeeded lods (constrainImagePosition (zoomedUnconstrained st 400 300 10))"
    using h by (intro zoomAt_unanimated)
      (simp_all add: absoluteMinScale_def effectiveMaxScale_def getFitToScreenScale_def Let_def)
  have c: "scale (constrainImagePosition (zoomedUnconstrained st 400 300 10)) = 1
     \<and> translateX (constrainImagePosition (zoomedUnconstrained st 400 300 10)) = 0
     \<and> translateY (constrainImagePosition (zoomedUnconstrained st 400 300 10)) = 0"
    using h by (simp add: constrainImagePosition_def zoomedUnconstrained_def
        getFitToScreenScale_def Let_def)
  show "scale (zoomAt lods host 400 300 10 False st) = 1" 
    using z c by (simp add: updateLODIfNeeded_fields updateLODIfNeeded_geometry)
  show "translateX (zoomAt lods host 400 300 10 False st) = 0"
    using z c by (simp add: updateLODIfNeeded_fields updateLODIfNeeded_geometry)
  show "translateY (zoomAt lods host 400 300 10 False st) = 0"
    using z c by (simp add: updateLODIfNeeded_fields updateLODIfNeeded_geometry)
qed

text \<open>
  On scenario 1, zooming by 10 about \<open>(200, 150)\<close> keeps the image point \<open>(-2000, -1500)\<close>
  under it, with \<open>tx = 1800\<close>; zooming by 10 about the centre gives \<open>s = 1\<close>, \<open>tx = ty = 0\<close>.
\<close>

theorem zoomAt_fixes_anchor_witness:
  "absoluteMinScale scenarioEngine \<le> scale scenarioEngine * 10
   \<and> scale scenarioEngine * 10 \<le> effectiveMaxScale scenarioEngine
   \<and> constrainImagePosition (zoomedUnconstrained scenarioEngine 200 150 10)
       = zoomedUnconstrained scenarioEngine 200 150 10
   \<and> imagePointUnder scenarioEngine 200 150 = (- 2000, - 1500)
   \<and> translateX (zoomedUnconstrained scenarioEngine 200 150 10) = 1800
   \<and> imagePointUnder (zoomAt sampleLods sampleHost 200 150 10 False scenarioEngine) 200 150
       = (- 2000, - 1500)
   \<and> scale (zoomAt sampleLods sampleHost 400 300 10 False scenarioEngine) = 1
   \<and> translateX (zoomAt sampleLods sampleHost 400 300 10 False scenarioEngine) = 0
   \<and> translateY (zoomAt sampleLods sampleHost 400 300 10 False scenarioEngine) = 0"
proof -
  have a: "absoluteMinScale scenarioEngine \<le> scale scenarioEngine * 10
       \<and> scale scenarioEngine * 10 \<le> effectiveMaxScale scenarioEngine"
    by (simp add: scenarioEngine_def run_defs)
  have b: "constrainImagePosition (zoomedUnconstrained scenarioEngine 200 150 10)
       = zoomedUnconstrained scenarioEngine 200 150 10"
    by (simp add: scenarioEngine_def zoomedUnconstrained_def run_defs)
  have c: "imagePointUnder scenarioEngine 200 150 = (- 2000, - 1500)"
    by (simp add: scenarioEngine_def imagePointUnder_def run_defs)
  have d: "translateX (zoomedUnconstrained scenarioEngine 200 150 10) = 1800"
    by (simp add: scenarioEngine_def zoomedUnconstrained_def run_defs)
  have e: "scale scenarioEngine = 1 / 10 \<and> translateX scenarioEngine = 0 \<and> translateY scenarioEngine = 0
      \<and> canvasWidth scenarioEngine = 800 \<and> canvasHeight scenarioEngine = 600
      \<and> imageWidth scenarioEngine = 8000 \<and> imageHeight scenarioEngine = 6000
      \<and> minScale (cfg scenarioEngine) = 1 / 10 \<and> maxScale (cfg scenarioEngine) = 10"
    by (simp add: scenarioEngine_def run_defs)
  show ?thesis
    using a b c d e
      zoomAt_fixes_anchor [of scenarioEngine 10 False 200 150 sampleLods sampleHost]
    by simp
qed





section \<open>The swap\<close>




section \<open>Emergency cleanup\<close>






section \<open>Properties of the LOD selection\<close>









section \<open>Input during an animation\<close>

text \<open>
  Claim C8, as amended. A wheel or touch-start event that arrives while an animation is in
  flight is ignored: the handler returns the engine unchanged, so the animation keeps
  running and the input is not processed.
\<close>

theorem input_ignored_while_animating:
  "isAnimating st \<longrightarrow>
     handleWheel lods host clientX clientY deltaY st = st
   \<and> handleTouchStart lods host touches st = st"
  by (simp add: handleWheel_def handleTouchStart_def)

text \<open>The engine with \<^verbatim>\<open>resetView\<close> in flight is returned unchanged by both handlers.\<close>

theorem input_ignored_while_animating_witness:
  "isAnimating animatingEngine
   \<and> handleWheel sampleLods sampleHost 400 300 (- 1) animatingEngine = animatingEngine
   \<and> handleTouchStart sampleLods sampleHost [(400, 300)] animatingEngine = animatingEngine"
proof -
  have a: "isAnimating animatingEngine"
    by (simp add: animatingEngine_def resetView_def Let_def startAnimation_fields)
  show ?thesis
    using a input_ignored_while_animating [of animatingEngine sampleLods sampleHost 400 300 "- 1" "[(400, 300)]"]
    by simp
qed

text \<open>
  Claim C8 as stated fails. With \<^verbatim>\<open>resetView\<close> in flight, a wheel event, a touch-start and a
  mouse-down each leave the animation running; the wheel does not zoom and neither pointer
  event starts a drag.
\<close>

theorem input_does_not_cancel_counterexample:
  "isAnimating animatingEngine
   \<and> isAnimating (handleWheel sampleLods sampleHost 400 300 (- 1) animatingEngine)
   \<and> scale (handleWheel sampleLods sampleHost 400 300 (- 1) animatingEngine) = scale animatingEngine
   \<and> isAnimating (handleTouchStart sampleLods sampleHost [(400, 300)] animatingEngine)
   \<and> \<not> isDragging (handleTouchStart sampleLods sampleHost [(400, 300)] animatingEngine)
   \<and> isAnimating (handleMouseDown 400 300 animatingEngine)
   \<and> \<not> isDragging (handleMouseDown 400 300 animatingEngine)"
  by (simp add: animatingEngine_def loadedEngine_eq handleWheel_def handleTouchStart_def
      handleMouseDown_def run_defs)

section \<open>Decode failure\<close>

text \<open>
  Claim C9, as amended. When the decoder rejects, \<^verbatim>\<open>loadImage(url)\<close> surfaces the failure and
  leaves the engine as it was except for \<open>originalImageSrc\<close>, which is already set to \<open>url\<close>.
\<close>

theorem loadImage_decode_failure:
  "loadImage lods url None env st = (Some DecodeFailure, st\<lparr>originalImageSrc := url\<rparr>)"
  by (simp add: loadImage_def)

text \<open>
  Claim C9 as stated fails in one point. A failed load of \<^verbatim>\<open>b.jpg\<close> on an engine that shows
  \<^verbatim>\<open>a.jpg\<close> leaves \<open>originalImageSrc\<close> at \<^verbatim>\<open>b.jpg\<close>.
\<close>

theorem failed_load_changes_url_counterexample:
  "originalImageSrc loadedEngine = ''a.jpg''
   \<and> fst (loadImage sampleLods ''b.jpg'' None sampleEnv loadedEngine) = Some DecodeFailure
   \<and> originalImageSrc (snd (loadImage sampleLods ''b.jpg'' None sampleEnv loadedEngine)) = ''b.jpg''
   \<and> snd (loadImage sampleLods ''b.jpg'' None sampleEnv loadedEngine) \<noteq> loadedEngine"
proof -
  have a: "originalImageSrc loadedEngine = ''a.jpg''" by (simp add: loadedEngine_eq)
  have b: "originalImageSrc (snd (loadImage sampleLods ''b.jpg'' None sampleEnv loadedEngine)) = ''b.jpg''"
    by (simp add: loadImage_def)
  have "snd (loadImage sampleLods ''b.jpg'' None sampleEnv loadedEngine) \<noteq> loadedEngine"
    using a b by auto
  then show ?thesis using a b by (simp add: loadImage_def)
qed

section \<open>Animation duration\<close>

lemma startAnimation_duration:
  "animationDuration (startAnimation s tx ty a now st)
     = (if truthy a then the a else if smooth (cfg st) then 300 else 0)"
  by (simp add: startAnimation_def Let_def constrainImagePosition_geometry)

text \<open>
  Claim C10. \<^verbatim>\<open>startAnimation\<close> called with an animation time of 0 sets the duration to the
  default (300 when \<open>smooth\<close>, else 0), as happens in the double-click toggle when
  \<^verbatim>\<open>doubleClick.animationTime\<close> is 0; a non-zero argument is taken as the duration.
\<close>

theorem startAnimation_zero_time_uses_default:
  "animationDuration (startAnimation s tx ty (Some 0) now st) = (if smooth (cfg st) then 300 else 0)
   \<and> (doubleClick_mode (cfg st) = Toggle \<and> doubleClick_animationTime (cfg st) = 0
      \<longrightarrow> animationDuration (performDoubleClickAction lods host x y st)
            = (if smooth (cfg st) then 300 else 0))
   \<and> (t \<noteq> 0 \<longrightarrow> animationDuration (startAnimation s tx ty (Some t) now st) = t)"
  by (simp add: startAnimation_duration truthy_def performDoubleClickAction_def Let_def)

text \<open>
  The sample configuration has \<^verbatim>\<open>doubleClick.animationTime = 0\<close> and \<open>smooth\<close>: the toggle animates
  for 300 ms.
\<close>

theorem startAnimation_zero_time_uses_default_witness:
  "doubleClick_mode (cfg loadedEngine) = Toggle \<and> doubleClick_animationTime (cfg loadedEngine) = 0
   \<and> smooth (cfg loadedEngine)
   \<and> animationDuration (performDoubleClickAction sampleLods sampleHost 200 150 loadedEngine) = 300
   \<and> animationDuration (startAnimation 1 0 0 (Some 0) 5000 loadedEngine) = 300
   \<and> animationDuration (startAnimation 1 0 0 (Some 150) 5000 loadedEngine) = 150"
proof -
  have a: "doubleClick_mode (cfg loadedEngine) = Toggle \<and> doubleClick_animationTime (cfg loadedEngine) = 0
     \<and> smooth (cfg loadedEngine)"
    by (simp add: loadedEngine_eq run_defs)
  show ?thesis
    using a
      startAnimation_zero_time_uses_default [of 1 0 0 5000 loadedEngine sampleLods sampleHost 200 150 150]
    by simp
qed

end
